theory Spec2Isabelle
  imports
    Main
    "HOL-Library.AList"
    "HOL-Library.Char_ord"
    "HOL-Library.List_Lexorder"
    "HOL-Library.Product_Lexorder"
    "HOL-Library.Multiset"
begin

section \<open>Values, documents and errors\<close>

text \<open>
  The handlers of \<^verbatim>\<open>main.py\<close> work on Python dicts whose keys are field names and whose
  values are strings, integers, booleans, \<^verbatim>\<open>None\<close> or timestamps. A timestamp
  (\<^verbatim>\<open>datetime.now(timezone.utc)\<close>) is a reading of the clock, a natural number of ticks.
  A dict is an association list with distinct keys in insertion order: a lookup is
  \<open>map_of\<close>, \<^verbatim>\<open>d[k] = v\<close> is \<open>AList.update\<close> (in place for a key that is there, at the end
  for a new one) and \<^verbatim>\<open>d.pop(k)\<close> removes the entry with \<open>AList.delete\<close>.
  A string is a list of characters, one per code point.
\<close>

datatype pyval = VNone | VBool bool | VInt int | VStr string | VTime nat

type_synonym doc = "(string \<times> pyval) list"

datatype error =
    HTTPException nat string
  | KeyError string
  | AttributeError
  | DuplicateKeyError
  | ValidationError string

definition bind_e :: "error + 'a \<Rightarrow> ('a \<Rightarrow> error + 'b) \<Rightarrow> error + 'b" where
  "bind_e m f = (case m of Inl e \<Rightarrow> Inl e | Inr x \<Rightarrow> f x)"

fun map_e :: "('a \<Rightarrow> error + 'b) \<Rightarrow> 'a list \<Rightarrow> error + 'b list" where
  "map_e f [] = Inr []"
| "map_e f (x # xs) =
     (case f x of Inl e \<Rightarrow> Inl e
      | Inr y \<Rightarrow> (case map_e f xs of Inl e \<Rightarrow> Inl e | Inr ys \<Rightarrow> Inr (y # ys)))"

subsection \<open>Builtins: \<^verbatim>\<open>str\<close>, truthiness, \<^verbatim>\<open>dict.get\<close>, indexing\<close>

fun str_nat :: "nat \<Rightarrow> string" where
  "str_nat n =
     (if n < 10 then [char_of (48 + n)]
      else str_nat (n div 10) @ [char_of (48 + n mod 10)])"

declare str_nat.simps [simp del]

definition str_int :: "int \<Rightarrow> string" where
  "str_int i = (if i < 0 then CHR ''-'' # str_nat (nat (- i)) else str_nat (nat i))"

text \<open>
  \<^verbatim>\<open>str(v)\<close>, which is also what an f-string puts in place of \<^verbatim>\<open>{v}\<close>. No handler
  renders a timestamp as text; the model shows one as its decimal reading.
\<close>

fun py_str :: "pyval \<Rightarrow> string" where
  "py_str VNone = ''None''"
| "py_str (VBool b) = (if b then ''True'' else ''False'')"
| "py_str (VInt i) = str_int i"
| "py_str (VStr s) = s"
| "py_str (VTime t) = str_nat t"

fun truthy :: "pyval \<Rightarrow> bool" where
  "truthy VNone = False"
| "truthy (VBool b) = b"
| "truthy (VInt i) = (i \<noteq> 0)"
| "truthy (VStr s) = (s \<noteq> [])"
| "truthy (VTime t) = True"

text \<open>
  \<^verbatim>\<open>if doc:\<close> on the result of \<^verbatim>\<open>find_one\<close>: \<^verbatim>\<open>None\<close> and the empty dict are false.
  \<open>truthy_doc\<close> gives the document when the test passes and \<open>None\<close> when it fails.
\<close>

fun truthy_doc :: "doc option \<Rightarrow> doc option" where
  "truthy_doc None = None"
| "truthy_doc (Some d) = (if d = [] then None else Some d)"

text \<open>\<^verbatim>\<open>d.get(k)\<close>, \<^verbatim>\<open>d.get(k, default)\<close> and \<^verbatim>\<open>d[k]\<close>.\<close>

definition dict_get :: "doc \<Rightarrow> string \<Rightarrow> pyval" where
  "dict_get d k = (case map_of d k of None \<Rightarrow> VNone | Some v \<Rightarrow> v)"

definition dict_get_default :: "doc \<Rightarrow> string \<Rightarrow> pyval \<Rightarrow> pyval" where
  "dict_get_default d k dflt = (case map_of d k of None \<Rightarrow> dflt | Some v \<Rightarrow> v)"

definition dict_index :: "doc \<Rightarrow> string \<Rightarrow> error + pyval" where
  "dict_index d k = (case map_of d k of None \<Rightarrow> Inl (KeyError k) | Some v \<Rightarrow> Inr v)"

section \<open>Identifier normalisation\<close>

text \<open>
  \<^verbatim>\<open>
  def doc_to_str_id(doc: dict) -> dict:
      d = doc.copy()
      if "_id" in d:
          d["id"] = str(d.pop("_id"))
      return d
  \<close>
  On dict values the copy is the dict itself.
\<close>

definition doc_to_str_id :: "doc \<Rightarrow> doc" where
  "doc_to_str_id doc =
     (let d = doc in
      case map_of d ''_id'' of
        None \<Rightarrow> d
      | Some v \<Rightarrow> AList.update ''id'' (VStr (py_str v)) (AList.delete ''_id'' d))"

text \<open>
  The same statements on an object store, where a dict is a mutable object reached through
  a reference: the heap is the list of the objects allocated so far and a reference is an
  index into it. \<^verbatim>\<open>doc.copy()\<close> allocates a new object with the entries of the old one,
  \<^verbatim>\<open>d.pop(k)\<close> and \<^verbatim>\<open>d[k] = v\<close> update the object that \<^verbatim>\<open>d\<close> refers to. The values held
  by a document are immutable, so the shallow copy shares nothing that can change.
\<close>

type_synonym ref = nat
type_synonym heap = "doc list"

definition dict_copy :: "heap \<Rightarrow> ref \<Rightarrow> heap \<times> ref" where
  "dict_copy h r = (h @ [h ! r], length h)"

definition dict_contains :: "heap \<Rightarrow> ref \<Rightarrow> string \<Rightarrow> bool" where
  "dict_contains h r k = (map_of (h ! r) k \<noteq> None)"

definition dict_pop :: "heap \<Rightarrow> ref \<Rightarrow> string \<Rightarrow> heap \<times> pyval" where
  "dict_pop h r k = (h[r := AList.delete k (h ! r)], dict_get (h ! r) k)"

definition dict_setitem :: "heap \<Rightarrow> ref \<Rightarrow> string \<Rightarrow> pyval \<Rightarrow> heap" where
  "dict_setitem h r k v = h[r := AList.update k v (h ! r)]"

definition doc_to_str_id_ref :: "heap \<Rightarrow> ref \<Rightarrow> heap \<times> ref" where
  "doc_to_str_id_ref h doc =
     (let (h1, d) = dict_copy h doc in
      if dict_contains h1 d ''_id'' then
        (let (h2, v) = dict_pop h1 d ''_id'';
             h3 = dict_setitem h2 d ''id'' (VStr (py_str v))
         in (h3, d))
      else (h1, d))"

section \<open>Reply derivation\<close>

text \<open>
  \<^verbatim>\<open>
  def generate_character_reply(character: dict, user_text: str) -> str:
      persona = character.get("personality", "kind and helpful")
      name = character.get("name", "Your character")
      prompt_safe = user_text[:400]
      reply = (
          f"{name}: As a {persona} character, I hear you say: '{prompt_safe}'. "
          "Here's my friendly response: I'm excited to chat and co-create images. "
          "Share more about style, mood, and setting!"
      )
      return reply
  \<close>
\<close>

definition generate_character_reply :: "doc \<Rightarrow> string \<Rightarrow> string" where
  "generate_character_reply character user_text =
     (let persona = dict_get_default character ''personality'' (VStr ''kind and helpful'');
          name = dict_get_default character ''name'' (VStr ''Your character'');
          prompt_safe = take 400 user_text;
          reply =
            py_str name @ '': As a '' @ py_str persona @ '' character, I hear you say: ''
              @ [CHR 0x27] @ prompt_safe @ [CHR 0x27] @ ''. ''
              @ ''Here'' @ [CHR 0x27] @ ''s my friendly response: I''
              @ [CHR 0x27] @ ''m excited to chat and co-create images. ''
              @ ''Share more about style, mood, and setting!''
      in reply)"

section \<open>The document store\<close>

text \<open>
  \<^verbatim>\<open>from database import db\<close>: the handle is \<^verbatim>\<open>None\<close> when no store is configured, and
  otherwise gives the three collections the handlers use. A collection is the list of its
  documents in insertion order.
\<close>

record store =
  coll_userprofile :: "doc list"
  coll_character :: "doc list"
  coll_message :: "doc list"

text \<open>
  Modelled from the spec: the \<^verbatim>\<open>database\<close> module and the store behind it are not among
  the sources; the spec takes the store as a collaborator that offers \<^verbatim>\<open>find_one(filter)\<close>,
  \<^verbatim>\<open>find(filter).sort(field, dir)\<close>, \<^verbatim>\<open>insert_one(doc)\<close> and
  \<^verbatim>\<open>update_one(filter, update)\<close> on named collections. A filter is a dict of field
  values that a document must hold; \<^verbatim>\<open>find_one\<close> gives the first document that matches.
\<close>

definition matches :: "doc \<Rightarrow> doc \<Rightarrow> bool" where
  "matches flt d = list_all (\<lambda>(k, v). map_of d k = Some v) flt"

definition find_one :: "doc list \<Rightarrow> doc \<Rightarrow> doc option" where
  "find_one coll flt = List.find (matches flt) coll"

text \<open>
  Modelled from the spec: \<^verbatim>\<open>insert_one\<close> adds the document at the end of the collection.
  The primary key \<^verbatim>\<open>_id\<close> is unique in a collection, so a document whose \<^verbatim>\<open>_id\<close> is
  already stored is refused. Every insert of the handlers carries its own \<^verbatim>\<open>_id\<close>.
\<close>

definition insert_one :: "doc list \<Rightarrow> doc \<Rightarrow> error + doc list" where
  "insert_one coll d =
     (if list_ex (\<lambda>e. map_of e ''_id'' = map_of d ''_id'') coll then Inl DuplicateKeyError
      else Inr (coll @ [d]))"

text \<open>
  Modelled from the spec: \<^verbatim>\<open>update_one(filter, {"$set": payload})\<close> assigns the fields of
  the payload in the first document that matches and leaves every other document alone.
\<close>

definition set_fields :: "doc \<Rightarrow> doc \<Rightarrow> doc" where
  "set_fields upd d = fold (\<lambda>(k, v) acc. AList.update k v acc) upd d"

fun update_one :: "doc list \<Rightarrow> doc \<Rightarrow> doc \<Rightarrow> doc list" where
  "update_one [] flt upd = []"
| "update_one (d # ds) flt upd =
     (if matches flt d then set_fields upd d # ds else d # update_one ds flt upd)"

text \<open>
  Modelled from the spec: \<^verbatim>\<open>find(filter).sort(field, dir)\<close> gives the matching documents
  ordered by the field, ascending for \<^verbatim>\<open>dir = 1\<close> and descending for \<^verbatim>\<open>dir = -1\<close>. Values
  of different types are ordered by type first (a missing field counts as null; null, then
  numbers, strings, booleans, dates), then by value.
\<close>

fun bson_key :: "pyval option \<Rightarrow> nat \<times> int \<times> string" where
  "bson_key None = (1, 0, [])"
| "bson_key (Some VNone) = (1, 0, [])"
| "bson_key (Some (VInt i)) = (2, i, [])"
| "bson_key (Some (VStr s)) = (3, 0, s)"
| "bson_key (Some (VBool b)) = (8, (if b then 1 else 0), [])"
| "bson_key (Some (VTime t)) = (9, int t, [])"

definition find_sort :: "doc list \<Rightarrow> doc \<Rightarrow> string \<Rightarrow> int \<Rightarrow> doc list" where
  "find_sort coll flt field dir =
     (let ms = filter (matches flt) coll;
          key = (\<lambda>d. bson_key (map_of d field))
      in if dir < 0 then rev (sort_key key (rev ms)) else sort_key key ms)"

section \<open>Schemas\<close>

text \<open>
  The request and response models of \<^verbatim>\<open>schemas.py\<close> and \<^verbatim>\<open>main.py\<close>. A request reaches
  its handler validated; a response model built inside a handler is validated there, and
  the constructor raises when a field cannot take its value or breaks a bound. A string
  field takes a string and nothing else, an optional one also \<^verbatim>\<open>None\<close>. The integer
  fields are those of \<^verbatim>\<open>UserProfile\<close>, which \<^verbatim>\<open>upsert_user\<close> builds from the fields
  it has just written from a validated profile: the values that reach them are integers
  (or \<^verbatim>\<open>None\<close> for the age), and the validation is written for these.
\<close>

record UserProfile =
  up_username :: string
  up_age :: "int option"
  up_trust_score :: int

record Character =
  ch_name :: string
  ch_personality :: string
  ch_appearance :: "string option"
  ch_location :: "string option"
  ch_creator_username :: string
  ch_nsfw_allowed :: bool

datatype rating = SFW | NSFW

record ImageRequest =
  ir_character_id :: string
  ir_username :: string
  ir_prompt :: string
  ir_style :: "string option"
  ir_rating :: rating

record CharacterOut =
  co_id :: string
  co_name :: string
  co_personality :: string
  co_appearance :: "string option"
  co_location :: "string option"
  co_creator_username :: string
  co_nsfw_allowed :: bool
  co_created_at :: nat

record MessageOut =
  mo_id :: string
  mo_character_id :: string
  mo_username :: string
  mo_text :: string
  mo_role :: string
  mo_created_at :: nat

record ChatIn =
  ci_username :: string
  ci_text :: string

record ImageGenResponse =
  ig_id :: string
  ig_status :: string
  ig_message :: string
  ig_image_url :: "string option"

fun v_str :: "pyval \<Rightarrow> string option" where
  "v_str (VStr s) = Some s"
| "v_str _ = None"

fun v_opt_str :: "pyval \<Rightarrow> string option option" where
  "v_opt_str VNone = Some None"
| "v_opt_str (VStr s) = Some (Some s)"
| "v_opt_str _ = None"

fun v_int :: "pyval \<Rightarrow> int option" where
  "v_int (VInt i) = Some i"
| "v_int _ = None"

fun v_opt_int :: "pyval \<Rightarrow> int option option" where
  "v_opt_int VNone = Some None"
| "v_opt_int (VInt i) = Some (Some i)"
| "v_opt_int _ = None"

text \<open>
  \<^verbatim>\<open>CharacterOut\<close> and \<^verbatim>\<open>MessageOut\<close> are built from stored documents, and the
  models validate in the library's lax mode, which turns some values of another type
  into the type of the field. A \<^verbatim>\<open>bool\<close> field takes a boolean, the integers 0 and 1,
  and some strings (\<^verbatim>\<open>"true"\<close>, \<^verbatim>\<open>"no"\<close>, \<^verbatim>\<open>"on"\<close>, ...); a \<^verbatim>\<open>datetime\<close> field takes
  a datetime, an integer (a Unix time) and a string (ISO 8601). Which strings the library
  reads and as what, and which reading of the clock an integer stands for, is the
  library's own: these three conversions are an argument of the model, as the builtin
  \<^verbatim>\<open>hash\<close> is, and no property below supposes anything of them.
\<close>

record lax_mode =
  str_as_bool :: "string \<Rightarrow> bool option"
  int_as_datetime :: "int \<Rightarrow> nat option"
  str_as_datetime :: "string \<Rightarrow> nat option"

fun v_bool :: "lax_mode \<Rightarrow> pyval \<Rightarrow> bool option" where
  "v_bool lax (VBool b) = Some b"
| "v_bool lax (VInt i) = (if i = 0 then Some False else if i = 1 then Some True else None)"
| "v_bool lax (VStr s) = str_as_bool lax s"
| "v_bool lax VNone = None"
| "v_bool lax (VTime t) = None"

fun v_datetime :: "lax_mode \<Rightarrow> pyval \<Rightarrow> nat option" where
  "v_datetime lax (VTime t) = Some t"
| "v_datetime lax (VInt i) = int_as_datetime lax i"
| "v_datetime lax (VStr s) = str_as_datetime lax s"
| "v_datetime lax VNone = None"
| "v_datetime lax (VBool b) = None"

text \<open>The bounds of \<^verbatim>\<open>UserProfile\<close>: username 2 to 32, age 0 to 150, trust_score 0 to 100.\<close>

definition valid_UserProfile :: "UserProfile \<Rightarrow> bool" where
  "valid_UserProfile p =
     (2 \<le> length (up_username p) \<and> length (up_username p) \<le> 32
      \<and> (case up_age p of None \<Rightarrow> True | Some a \<Rightarrow> 0 \<le> a \<and> a \<le> 150)
      \<and> 0 \<le> up_trust_score p \<and> up_trust_score p \<le> 100)"

definition new_UserProfile :: "pyval \<Rightarrow> pyval \<Rightarrow> pyval \<Rightarrow> error + UserProfile" where
  "new_UserProfile username age trust_score =
     (case (v_str username, v_opt_int age, v_int trust_score) of
        (Some u, Some a, Some t) \<Rightarrow>
          (let p = \<lparr>up_username = u, up_age = a, up_trust_score = t\<rparr> in
           if valid_UserProfile p then Inr p else Inl (ValidationError ''UserProfile''))
      | _ \<Rightarrow> Inl (ValidationError ''UserProfile''))"

definition opt_int_val :: "int option \<Rightarrow> pyval" where
  "opt_int_val x = (case x of None \<Rightarrow> VNone | Some i \<Rightarrow> VInt i)"

definition model_dump_UserProfile :: "UserProfile \<Rightarrow> doc" where
  "model_dump_UserProfile p =
     [(''username'', VStr (up_username p)),
      (''age'', opt_int_val (up_age p)),
      (''trust_score'', VInt (up_trust_score p))]"

definition opt_str_val :: "string option \<Rightarrow> pyval" where
  "opt_str_val x = (case x of None \<Rightarrow> VNone | Some s \<Rightarrow> VStr s)"

definition model_dump_Character :: "Character \<Rightarrow> doc" where
  "model_dump_Character c =
     [(''name'', VStr (ch_name c)),
      (''personality'', VStr (ch_personality c)),
      (''appearance'', opt_str_val (ch_appearance c)),
      (''location'', opt_str_val (ch_location c)),
      (''creator_username'', VStr (ch_creator_username c)),
      (''nsfw_allowed'', VBool (ch_nsfw_allowed c))]"

definition new_CharacterOut ::
  "lax_mode \<Rightarrow> pyval \<Rightarrow> pyval \<Rightarrow> pyval \<Rightarrow> pyval \<Rightarrow> pyval \<Rightarrow> pyval \<Rightarrow> pyval \<Rightarrow> pyval \<Rightarrow> error + CharacterOut" where
  "new_CharacterOut lax i n p a l c nsfw t =
     (case (v_str i, v_str n, v_str p, v_opt_str a, v_opt_str l, v_str c, v_bool lax nsfw,
            v_datetime lax t) of
        (Some i', Some n', Some p', Some a', Some l', Some c', Some nsfw', Some t') \<Rightarrow>
          Inr \<lparr>co_id = i', co_name = n', co_personality = p', co_appearance = a',
               co_location = l', co_creator_username = c', co_nsfw_allowed = nsfw',
               co_created_at = t'\<rparr>
      | _ \<Rightarrow> Inl (ValidationError ''CharacterOut''))"

definition new_MessageOut ::
  "lax_mode \<Rightarrow> pyval \<Rightarrow> pyval \<Rightarrow> pyval \<Rightarrow> pyval \<Rightarrow> pyval \<Rightarrow> pyval \<Rightarrow> error + MessageOut" where
  "new_MessageOut lax i c u t r ts =
     (case (v_str i, v_str c, v_str u, v_str t, v_str r, v_datetime lax ts) of
        (Some i', Some c', Some u', Some t', Some r', Some ts') \<Rightarrow>
          if r' = ''user'' \<or> r' = ''character'' then
            Inr \<lparr>mo_id = i', mo_character_id = c', mo_username = u', mo_text = t',
                 mo_role = r', mo_created_at = ts'\<rparr>
          else Inl (ValidationError ''MessageOut'')
      | _ \<Rightarrow> Inl (ValidationError ''MessageOut''))"

section \<open>Handlers\<close>

text \<open>
  A handler takes the store handle and its request, and whatever it reads from the world
  in the order it reads it: the readings of the clock (\<^verbatim>\<open>datetime.now\<close>) and the
  identifiers that \<^verbatim>\<open>str(uuid4())\<close> returns. A handler that writes gives back the store
  with its result, so that what was written before a raise stays written; a handler that
  only reads gives back its result. A raise is \<open>Inl\<close>. A handler that builds a
  \<^verbatim>\<open>CharacterOut\<close> or a \<^verbatim>\<open>MessageOut\<close> takes the conversions of the lax mode first.
\<close>

definition no_db :: error where
  "no_db = HTTPException 500 ''Database not available''"

text \<open>
  \<^verbatim>\<open>UserProfile(**{k: doc.get(k) for k in ["username", "age", "trust_score"]})\<close>; on
  \<^verbatim>\<open>None\<close> in place of the document, \<^verbatim>\<open>doc.get\<close> raises.
\<close>

definition UserProfile_of :: "doc option \<Rightarrow> error + UserProfile" where
  "UserProfile_of doc =
     (case doc of
        None \<Rightarrow> Inl AttributeError
      | Some d \<Rightarrow>
          new_UserProfile (dict_get d ''username'') (dict_get d ''age'') (dict_get d ''trust_score''))"

text \<open>
  \<^verbatim>\<open>
  def upsert_user(profile: UserProfile):
      if db is None:
          raise HTTPException(status_code=500, detail="Database not available")
      existing = db["userprofile"].find_one({"username": profile.username})
      payload = profile.model_dump()
      payload["updated_at"] = datetime.now(timezone.utc)
      if existing:
          db["userprofile"].update_one({"_id": existing["_id"]}, {"$set": payload})
          doc = db["userprofile"].find_one({"_id": existing["_id"]})
      else:
          payload["created_at"] = datetime.now(timezone.utc)
          payload["_id"] = profile.username  # readable primary key
          db["userprofile"].insert_one(payload)
          doc = payload
      return UserProfile(**{k: doc.get(k) for k in ["username", "age", "trust_score"]})
  \<close>
  \<^verbatim>\<open>if existing\<close> is false for \<^verbatim>\<open>None\<close> and for an empty document.
\<close>

definition upsert_user ::
  "store option \<Rightarrow> UserProfile \<Rightarrow> nat \<Rightarrow> nat \<Rightarrow> store option \<times> (error + UserProfile)" where
  "upsert_user db profile now1 now2 =
     (case db of
        None \<Rightarrow> (db, Inl no_db)
      | Some s \<Rightarrow>
          (let existing = find_one (coll_userprofile s) [(''username'', VStr (up_username profile))];
               payload = model_dump_UserProfile profile;
               payload = AList.update ''updated_at'' (VTime now1) payload
           in case truthy_doc existing of
                Some ex \<Rightarrow>
                  (case dict_index ex ''_id'' of
                     Inl e \<Rightarrow> (db, Inl e)
                   | Inr eid \<Rightarrow>
                       (let coll = update_one (coll_userprofile s) [(''_id'', eid)] payload;
                            doc = find_one coll [(''_id'', eid)]
                        in (Some (s\<lparr>coll_userprofile := coll\<rparr>), UserProfile_of doc)))
              | None \<Rightarrow>
                  (let payload = AList.update ''created_at'' (VTime now2) payload;
                       payload = AList.update ''_id'' (VStr (up_username profile)) payload
                   in case insert_one (coll_userprofile s) payload of
                        Inl e \<Rightarrow> (db, Inl e)
                      | Inr coll \<Rightarrow>
                          (Some (s\<lparr>coll_userprofile := coll\<rparr>),
                           UserProfile_of (Some payload)))))"

text \<open>
  The arguments of \<^verbatim>\<open>CharacterOut\<close> as \<^verbatim>\<open>create_character\<close> and
  \<^verbatim>\<open>list_characters\<close> both take them from a normalised document: \<^verbatim>\<open>d["id"]\<close>,
  \<^verbatim>\<open>d["name"]\<close>, \<^verbatim>\<open>d["personality"]\<close>, \<^verbatim>\<open>d.get("appearance")\<close>,
  \<^verbatim>\<open>d.get("location")\<close>, \<^verbatim>\<open>d["creator_username"]\<close>,
  \<^verbatim>\<open>d.get("nsfw_allowed", False)\<close>, \<^verbatim>\<open>d["created_at"]\<close>, in this order.
\<close>

definition CharacterOut_of :: "lax_mode \<Rightarrow> doc \<Rightarrow> error + CharacterOut" where
  "CharacterOut_of lax d =
     bind_e (dict_index d ''id'') (\<lambda>i.
     bind_e (dict_index d ''name'') (\<lambda>n.
     bind_e (dict_index d ''personality'') (\<lambda>p.
     bind_e (dict_index d ''creator_username'') (\<lambda>c.
     bind_e (dict_index d ''created_at'') (\<lambda>t.
       new_CharacterOut lax i n p (dict_get d ''appearance'') (dict_get d ''location'') c
         (dict_get_default d ''nsfw_allowed'' (VBool False)) t)))))"

text \<open>
  \<^verbatim>\<open>
  def create_character(character: Character):
      if db is None:
          raise HTTPException(status_code=500, detail="Database not available")
      data = character.model_dump()
      now = datetime.now(timezone.utc)
      data["created_at"] = now
      data["updated_at"] = now
      data["_id"] = str(uuid4())
      db["character"].insert_one(data)
      out = doc_to_str_id(data)
      return CharacterOut(**{ "id": out["id"], ... })
  \<close>
\<close>

definition create_character ::
  "lax_mode \<Rightarrow> store option \<Rightarrow> Character \<Rightarrow> nat \<Rightarrow> string \<Rightarrow> store option \<times> (error + CharacterOut)" where
  "create_character lax db chr now uid =
     (case db of
        None \<Rightarrow> (db, Inl no_db)
      | Some s \<Rightarrow>
          (let data = model_dump_Character chr;
               data = AList.update ''created_at'' (VTime now) data;
               data = AList.update ''updated_at'' (VTime now) data;
               data = AList.update ''_id'' (VStr uid) data
           in case insert_one (coll_character s) data of
                Inl e \<Rightarrow> (db, Inl e)
              | Inr coll \<Rightarrow>
                  (let out = doc_to_str_id data
                   in (Some (s\<lparr>coll_character := coll\<rparr>), CharacterOut_of lax out))))"

text \<open>
  \<^verbatim>\<open>
  def list_characters():
      if db is None:
          raise HTTPException(status_code=500, detail="Database not available")
      docs = list(db["character"].find().sort("created_at", -1))
      items: List[CharacterOut] = []
      for doc in docs:
          d = doc_to_str_id(doc)
          items.append(CharacterOut(id=d["id"], ...))
      return items
  \<close>
\<close>

definition list_characters :: "lax_mode \<Rightarrow> store option \<Rightarrow> error + CharacterOut list" where
  "list_characters lax db =
     (case db of
        None \<Rightarrow> Inl no_db
      | Some s \<Rightarrow>
          (let docs = find_sort (coll_character s) [] ''created_at'' (- 1)
           in map_e (\<lambda>doc. CharacterOut_of lax (doc_to_str_id doc)) docs))"

text \<open>
  The arguments of \<^verbatim>\<open>MessageOut\<close> as \<^verbatim>\<open>post_message\<close> and \<^verbatim>\<open>get_messages\<close> both take
  them from a normalised document: \<^verbatim>\<open>d["id"]\<close>, \<^verbatim>\<open>d["character_id"]\<close>,
  \<^verbatim>\<open>d["username"]\<close>, \<^verbatim>\<open>d["text"]\<close>, \<^verbatim>\<open>d["role"]\<close>, \<^verbatim>\<open>d["created_at"]\<close>.
\<close>

definition MessageOut_of :: "lax_mode \<Rightarrow> doc \<Rightarrow> error + MessageOut" where
  "MessageOut_of lax d =
     bind_e (dict_index d ''id'') (\<lambda>i.
     bind_e (dict_index d ''character_id'') (\<lambda>c.
     bind_e (dict_index d ''username'') (\<lambda>u.
     bind_e (dict_index d ''text'') (\<lambda>t.
     bind_e (dict_index d ''role'') (\<lambda>r.
     bind_e (dict_index d ''created_at'') (\<lambda>ts.
       new_MessageOut lax i c u t r ts))))))"

text \<open>
  The last lines of \<^verbatim>\<open>post_message\<close> and the body of \<^verbatim>\<open>get_messages\<close>:
  \<^verbatim>\<open>
      msgs = list(db["message"].find({"character_id": character_id}).sort("created_at", 1))
      out: List[MessageOut] = []
      for m in msgs:
          d = doc_to_str_id(m)
          out.append(MessageOut(id=d["id"], ...))
      return out
  \<close>
\<close>

definition read_messages :: "lax_mode \<Rightarrow> doc list \<Rightarrow> string \<Rightarrow> error + MessageOut list" where
  "read_messages lax coll character_id =
     (let msgs = find_sort coll [(''character_id'', VStr character_id)] ''created_at'' 1
      in map_e (\<lambda>m. MessageOut_of lax (doc_to_str_id m)) msgs)"

text \<open>
  \<^verbatim>\<open>
  def post_message(character_id: str, payload: ChatIn):
      if db is None:
          raise HTTPException(status_code=500, detail="Database not available")
      char = db["character"].find_one({"_id": character_id})
      if not char:
          raise HTTPException(status_code=404, detail="Character not found")
      now = datetime.now(timezone.utc)
      user_msg = { "_id": str(uuid4()), "character_id": character_id,
                   "username": payload.username, "text": payload.text, "role": "user",
                   "created_at": now, "updated_at": now }
      db["message"].insert_one(user_msg)
      reply_text = generate_character_reply(char, payload.text)
      char_msg = { "_id": str(uuid4()), "character_id": character_id,
                   "username": char.get("name", "character"), "text": reply_text,
                   "role": "character", "created_at": now, "updated_at": now }
      db["message"].insert_one(char_msg)
      msgs = list(db["message"].find({"character_id": character_id}).sort("created_at", 1))
      ...
      return out
  \<close>
\<close>

definition user_msg_doc :: "string \<Rightarrow> string \<Rightarrow> ChatIn \<Rightarrow> nat \<Rightarrow> doc" where
  "user_msg_doc uid character_id payload now =
     [(''_id'', VStr uid),
      (''character_id'', VStr character_id),
      (''username'', VStr (ci_username payload)),
      (''text'', VStr (ci_text payload)),
      (''role'', VStr ''user''),
      (''created_at'', VTime now),
      (''updated_at'', VTime now)]"

definition char_msg_doc :: "string \<Rightarrow> string \<Rightarrow> doc \<Rightarrow> string \<Rightarrow> nat \<Rightarrow> doc" where
  "char_msg_doc uid character_id char reply_text now =
     [(''_id'', VStr uid),
      (''character_id'', VStr character_id),
      (''username'', dict_get_default char ''name'' (VStr ''character'')),
      (''text'', VStr reply_text),
      (''role'', VStr ''character''),
      (''created_at'', VTime now),
      (''updated_at'', VTime now)]"

definition post_message ::
  "lax_mode \<Rightarrow> store option \<Rightarrow> string \<Rightarrow> ChatIn \<Rightarrow> nat \<Rightarrow> string \<Rightarrow> string
     \<Rightarrow> store option \<times> (error + MessageOut list)" where
  "post_message lax db character_id payload now uid1 uid2 =
     (case db of
        None \<Rightarrow> (db, Inl no_db)
      | Some s \<Rightarrow>
          (case truthy_doc (find_one (coll_character s) [(''_id'', VStr character_id)]) of
             None \<Rightarrow> (db, Inl (HTTPException 404 ''Character not found''))
           | Some char \<Rightarrow>
               (let user_msg = user_msg_doc uid1 character_id payload now
                in case insert_one (coll_message s) user_msg of
                     Inl e \<Rightarrow> (db, Inl e)
                   | Inr coll1 \<Rightarrow>
                       (let reply_text = generate_character_reply char (ci_text payload);
                            char_msg = char_msg_doc uid2 character_id char reply_text now
                        in case insert_one coll1 char_msg of
                             Inl e \<Rightarrow> (Some (s\<lparr>coll_message := coll1\<rparr>), Inl e)
                           | Inr coll2 \<Rightarrow>
                               (Some (s\<lparr>coll_message := coll2\<rparr>),
                                read_messages lax coll2 character_id)))))"

text \<open>
  \<^verbatim>\<open>
  def get_messages(character_id: str):
      if db is None:
          raise HTTPException(status_code=500, detail="Database not available")
      msgs = list(db["message"].find({"character_id": character_id}).sort("created_at", 1))
      ...
      return out
  \<close>
\<close>

definition get_messages :: "lax_mode \<Rightarrow> store option \<Rightarrow> string \<Rightarrow> error + MessageOut list" where
  "get_messages lax db character_id =
     (case db of
        None \<Rightarrow> Inl no_db
      | Some s \<Rightarrow> read_messages lax (coll_message s) character_id)"

text \<open>
  \<^verbatim>\<open>
  def generate_image(req: ImageRequest):
      if db is None:
          raise HTTPException(status_code=500, detail="Database not available")
      char = db["character"].find_one({"_id": req.character_id})
      if not char:
          raise HTTPException(status_code=404, detail="Character not found")
      user = db["userprofile"].find_one({"username": req.username})
      if not user:
          raise HTTPException(status_code=404, detail="User not found")
      if req.rating == "NSFW":
          return ImageGenResponse(id=str(uuid4()), status="blocked",
              message=("NSFW image generation is gated and disabled in this demo. "
                       "Earn trust and ensure adult age in a production-ready system."),
              image_url=None)
      desc = f"{char.get('name')} | {char.get('personality')} | {char.get('appearance') or ''} | {char.get('location') or ''} | {req.prompt}"
      seed = abs(hash(desc)) % 1000
      placeholder_url = f"https://picsum.photos/seed/{seed}/768/512"
      return ImageGenResponse(id=str(uuid4()), status="completed",
          message="SFW image created (placeholder)", image_url=placeholder_url)
  \<close>
  The builtin \<^verbatim>\<open>hash\<close> on strings is the first argument of the model: the interpreter
  fixes it when it starts, and the handler uses nothing of it but that it is a function
  from strings to integers.
\<close>

definition or_empty :: "pyval \<Rightarrow> string" where
  "or_empty v = (if truthy v then py_str v else [])"

definition image_desc :: "doc \<Rightarrow> string \<Rightarrow> string" where
  "image_desc char prompt =
     py_str (dict_get char ''name'') @ '' | '' @ py_str (dict_get char ''personality'') @ '' | ''
       @ or_empty (dict_get char ''appearance'') @ '' | ''
       @ or_empty (dict_get char ''location'') @ '' | '' @ prompt"

definition blocked_message :: string where
  "blocked_message =
     ''NSFW image generation is gated and disabled in this demo. ''
       @ ''Earn trust and ensure adult age in a production-ready system.''"

definition generate_image ::
  "(string \<Rightarrow> int) \<Rightarrow> store option \<Rightarrow> ImageRequest \<Rightarrow> string \<Rightarrow> error + ImageGenResponse" where
  "generate_image hash db req uid =
     (case db of
        None \<Rightarrow> Inl no_db
      | Some s \<Rightarrow>
          (case truthy_doc (find_one (coll_character s) [(''_id'', VStr (ir_character_id req))]) of
             None \<Rightarrow> Inl (HTTPException 404 ''Character not found'')
           | Some char \<Rightarrow>
               (case truthy_doc
                       (find_one (coll_userprofile s) [(''username'', VStr (ir_username req))]) of
                  None \<Rightarrow> Inl (HTTPException 404 ''User not found'')
                | Some user \<Rightarrow>
                    if ir_rating req = NSFW then
                      Inr \<lparr>ig_id = uid, ig_status = ''blocked'', ig_message = blocked_message,
                           ig_image_url = None\<rparr>
                    else
                      (let desc = image_desc char (ir_prompt req);
                           seed = \<bar>hash desc\<bar> mod 1000;
                           placeholder_url =
                             ''https://picsum.photos/seed/'' @ str_int seed @ ''/768/512''
                       in Inr \<lparr>ig_id = uid, ig_status = ''completed'',
                               ig_message = ''SFW image created (placeholder)'',
                               ig_image_url = Some placeholder_url\<rparr>))))"

section \<open>Notions used in the statements\<close>

text \<open>A character id or a username refers to an existing record of the store.\<close>

definition character_exists :: "store \<Rightarrow> string \<Rightarrow> bool" where
  "character_exists s cid = list_ex (\<lambda>c. map_of c ''_id'' = Some (VStr cid)) (coll_character s)"

definition user_exists :: "store \<Rightarrow> string \<Rightarrow> bool" where
  "user_exists s u = list_ex (\<lambda>d. map_of d ''username'' = Some (VStr u)) (coll_userprofile s)"

text \<open>
  An identifier that \<^verbatim>\<open>uuid4\<close> returns is fresh: no document of the collection has it as
  its \<^verbatim>\<open>_id\<close>.
\<close>

definition fresh_id :: "doc list \<Rightarrow> string \<Rightarrow> bool" where
  "fresh_id coll uid = (\<not> list_ex (\<lambda>e. map_of e ''_id'' = Some (VStr uid)) coll)"

text \<open>
  What a stored value is and what it holds: the tests say that a value is of a type, the
  readings give the string, the optional string, the boolean or the timestamp in it.
\<close>

fun is_str :: "pyval \<Rightarrow> bool" where
  "is_str (VStr s) = True"
| "is_str _ = False"

fun is_opt_str :: "pyval \<Rightarrow> bool" where
  "is_opt_str VNone = True"
| "is_opt_str (VStr s) = True"
| "is_opt_str _ = False"

fun is_bool :: "pyval \<Rightarrow> bool" where
  "is_bool (VBool b) = True"
| "is_bool _ = False"

fun is_time :: "pyval \<Rightarrow> bool" where
  "is_time (VTime t) = True"
| "is_time _ = False"

fun str_of :: "pyval \<Rightarrow> string" where
  "str_of (VStr s) = s"
| "str_of _ = []"

fun opt_str_of :: "pyval \<Rightarrow> string option" where
  "opt_str_of (VStr s) = Some s"
| "opt_str_of _ = None"

fun bool_of :: "pyval \<Rightarrow> bool" where
  "bool_of (VBool b) = b"
| "bool_of _ = False"

fun time_of :: "pyval \<Rightarrow> nat" where
  "time_of (VTime t) = t"
| "time_of _ = 0"

text \<open>
  A message document as \<^verbatim>\<open>post_message\<close> writes it: string fields \<^verbatim>\<open>_id\<close>,
  \<^verbatim>\<open>character_id\<close>, \<^verbatim>\<open>username\<close> and \<^verbatim>\<open>text\<close>, a role that is \<^verbatim>\<open>user\<close> or
  \<^verbatim>\<open>character\<close>, and a timestamp \<^verbatim>\<open>created_at\<close>.
\<close>

definition wf_message :: "doc \<Rightarrow> bool" where
  "wf_message m =
     (is_str (dict_get m ''_id'')
      \<and> is_str (dict_get m ''character_id'')
      \<and> is_str (dict_get m ''username'')
      \<and> is_str (dict_get m ''text'')
      \<and> dict_get m ''role'' \<in> {VStr ''user'', VStr ''character''}
      \<and> is_time (dict_get m ''created_at''))"

text \<open>
  The message that the interface shows for a stored message document: its identifier
  under the name \<^verbatim>\<open>id\<close>, the character's identifier, the username, the text, the role and
  the creation time. \<^verbatim>\<open>updated_at\<close> is not shown.
\<close>

definition message_view :: "doc \<Rightarrow> MessageOut" where
  "message_view m =
     \<lparr>mo_id = str_of (dict_get m ''_id''),
      mo_character_id = str_of (dict_get m ''character_id''),
      mo_username = str_of (dict_get m ''username''),
      mo_text = str_of (dict_get m ''text''),
      mo_role = str_of (dict_get m ''role''),
      mo_created_at = time_of (dict_get m ''created_at'')\<rparr>"

text \<open>
  A character document as \<^verbatim>\<open>create_character\<close> writes it: string fields \<^verbatim>\<open>_id\<close>,
  \<^verbatim>\<open>name\<close>, \<^verbatim>\<open>personality\<close> and \<^verbatim>\<open>creator_username\<close>, optional strings
  \<^verbatim>\<open>appearance\<close> and \<^verbatim>\<open>location\<close>, a boolean \<^verbatim>\<open>nsfw_allowed\<close> when the field is
  there, and a timestamp \<^verbatim>\<open>created_at\<close>.
\<close>

definition wf_character :: "doc \<Rightarrow> bool" where
  "wf_character c =
     (is_str (dict_get c ''_id'')
      \<and> is_str (dict_get c ''name'')
      \<and> is_str (dict_get c ''personality'')
      \<and> is_opt_str (dict_get c ''appearance'')
      \<and> is_opt_str (dict_get c ''location'')
      \<and> is_str (dict_get c ''creator_username'')
      \<and> is_bool (dict_get_default c ''nsfw_allowed'' (VBool False))
      \<and> is_time (dict_get c ''created_at''))"

text \<open>
  The character that the interface shows for a stored character document: its identifier
  under the name \<^verbatim>\<open>id\<close> and its seven other fields, \<^verbatim>\<open>nsfw_allowed\<close> false when the
  document has none. \<^verbatim>\<open>updated_at\<close> is not shown.
\<close>

definition character_view :: "doc \<Rightarrow> CharacterOut" where
  "character_view c =
     \<lparr>co_id = str_of (dict_get c ''_id''),
      co_name = str_of (dict_get c ''name''),
      co_personality = str_of (dict_get c ''personality''),
      co_appearance = opt_str_of (dict_get c ''appearance''),
      co_location = opt_str_of (dict_get c ''location''),
      co_creator_username = str_of (dict_get c ''creator_username''),
      co_nsfw_allowed = bool_of (dict_get_default c ''nsfw_allowed'' (VBool False)),
      co_created_at = time_of (dict_get c ''created_at'')\<rparr>"

text \<open>
  The character and message collections as the handlers keep them: \<^verbatim>\<open>create_character\<close>
  is the only writer of the first and \<^verbatim>\<open>post_message\<close> of the second, and what each
  writes is a document as above. The empty store is so, and every handler that writes
  keeps it so, whatever it returns.
\<close>

definition store_ok :: "store \<Rightarrow> bool" where
  "store_ok s = (list_all wf_character (coll_character s) \<and> list_all wf_message (coll_message s))"

text \<open>
  The document that \<^verbatim>\<open>create_character\<close> builds from the dumped request, the clock
  reading and the new identifier, in the order of its assignments.
\<close>

definition character_doc :: "Character \<Rightarrow> nat \<Rightarrow> string \<Rightarrow> doc" where
  "character_doc chr now uid =
     [(''name'', VStr (ch_name chr)),
      (''personality'', VStr (ch_personality chr)),
      (''appearance'', opt_str_val (ch_appearance chr)),
      (''location'', opt_str_val (ch_location chr)),
      (''creator_username'', VStr (ch_creator_username chr)),
      (''nsfw_allowed'', VBool (ch_nsfw_allowed chr)),
      (''created_at'', VTime now),
      (''updated_at'', VTime now),
      (''_id'', VStr uid)]"

text \<open>
  The user collection as \<^verbatim>\<open>upsert_user\<close> keeps it: the primary keys are distinct and
  every document has its username as its \<^verbatim>\<open>_id\<close>. The empty collection is so, and
  \<^verbatim>\<open>upsert_user\<close> keeps it so.
\<close>

definition user_doc_ok :: "doc \<Rightarrow> bool" where
  "user_doc_ok d =
     (case map_of d ''_id'' of
        Some (VStr u) \<Rightarrow> map_of d ''username'' = Some (VStr u)
      | _ \<Rightarrow> False)"

definition users_ok :: "doc list \<Rightarrow> bool" where
  "users_ok coll = (distinct (map (\<lambda>d. map_of d ''_id'') coll) \<and> list_all user_doc_ok coll)"

text \<open>
  The payload of \<^verbatim>\<open>upsert_user\<close> after \<^verbatim>\<open>payload["updated_at"] = ...\<close>: the dumped
  profile and the timestamp.
\<close>

definition user_payload :: "UserProfile \<Rightarrow> nat \<Rightarrow> doc" where
  "user_payload p now =
     [(''username'', VStr (up_username p)), (''age'', opt_int_val (up_age p)),
      (''trust_score'', VInt (up_trust_score p)), (''updated_at'', VTime now)]"

text \<open>A small store for the examples: one user, one character and one message.\<close>

definition demo_character :: doc where
  "demo_character =
     [(''name'', VStr ''Ada''), (''personality'', VStr ''calm''), (''appearance'', VNone),
      (''location'', VStr ''Paris''), (''creator_username'', VStr ''alice''),
      (''nsfw_allowed'', VBool False), (''created_at'', VTime 10),
      (''updated_at'', VTime 10), (''_id'', VStr ''c1'')]"

definition demo_store :: store where
  "demo_store =
     \<lparr>coll_userprofile =
        [[(''username'', VStr ''alice''), (''age'', VInt 30), (''trust_score'', VInt 5),
          (''updated_at'', VTime 1), (''created_at'', VTime 1), (''_id'', VStr ''alice'')]],
      coll_character = [demo_character],
      coll_message =
        [[(''_id'', VStr ''m1''), (''character_id'', VStr ''c1''), (''username'', VStr ''alice''),
          (''text'', VStr ''hello''), (''role'', VStr ''user''), (''created_at'', VTime 20),
          (''updated_at'', VTime 20)]]\<rparr>"

definition demo_new_character :: Character where
  "demo_new_character =
     \<lparr>ch_name = ''Ben'', ch_personality = ''bold'', ch_appearance = Some ''tall'',
      ch_location = None, ch_creator_username = ''alice'', ch_nsfw_allowed = False\<rparr>"

definition demo_profile1 :: UserProfile where
  "demo_profile1 = \<lparr>up_username = ''bob'', up_age = None, up_trust_score = 0\<rparr>"

definition demo_profile2 :: UserProfile where
  "demo_profile2 = \<lparr>up_username = ''bob'', up_age = Some 41, up_trust_score = 7\<rparr>"

text \<open>
  A second message collection for the examples: three messages stored out of the order of
  their timestamps, two of them of the character \<^verbatim>\<open>c1\<close>.
\<close>

definition demo_history :: "doc list" where
  "demo_history =
     [[(''_id'', VStr ''m1''), (''character_id'', VStr ''c1''), (''username'', VStr ''alice''),
       (''text'', VStr ''hello''), (''role'', VStr ''user''), (''created_at'', VTime 20),
       (''updated_at'', VTime 20)],
      [(''_id'', VStr ''m7''), (''character_id'', VStr ''c7''), (''username'', VStr ''bob''),
       (''text'', VStr ''hey''), (''role'', VStr ''user''), (''created_at'', VTime 7),
       (''updated_at'', VTime 7)],
      [(''_id'', VStr ''m0''), (''character_id'', VStr ''c1''), (''username'', VStr ''Ada''),
       (''text'', VStr ''welcome''), (''role'', VStr ''character''), (''created_at'', VTime 5),
       (''updated_at'', VTime 5)]]"

text \<open>
  Conversions for the examples: the strings \<^verbatim>\<open>true\<close> and \<^verbatim>\<open>false\<close> as booleans, a
  non-negative integer as the clock reading of that number, no string as a timestamp.
\<close>

definition demo_lax :: lax_mode where
  "demo_lax =
     \<lparr>str_as_bool = (\<lambda>s. if s = ''true'' then Some True
                          else if s = ''false'' then Some False else None),
      int_as_datetime = (\<lambda>i. if 0 \<le> i then Some (nat i) else None),
      str_as_datetime = (\<lambda>s. None)\<rparr>"



section \<open>Properties of the reply derivation\<close>

text \<open>
  C10. For every character record and any two user texts that agree on their first 400
  characters, \<open>generate_character_reply\<close> returns the same reply: beyond the character's
  name and personality, the reply depends on the first 400 characters of the text only.
\<close>

theorem generate_character_reply_prefix:
  "map_of c1 ''name'' = map_of c2 ''name'' \<Longrightarrow>
   map_of c1 ''personality'' = map_of c2 ''personality'' \<Longrightarrow>
   take 400 t1 = take 400 t2 \<Longrightarrow>
     generate_character_reply c1 t1 = generate_character_reply c2 t2"
  by (simp add: generate_character_reply_def dict_get_default_def)

theorem generate_character_reply_prefix_witness:
  "take 400 (replicate 400 CHR ''a'' @ ''xyz'') = take 400 (replicate 400 CHR ''a'' @ ''q'')
   \<and> generate_character_reply [(''name'', VStr ''Ada'')] (replicate 400 CHR ''a'' @ ''xyz'')
     = generate_character_reply [(''name'', VStr ''Ada''), (''location'', VStr ''Paris'')]
         (replicate 400 CHR ''a'' @ ''q'')"
proof -
  have h: "take 400 (replicate 400 CHR ''a'' @ ''xyz'') = take 400 (replicate 400 CHR ''a'' @ ''q'')"
    by simp
  have n: "map_of [(''name'', VStr ''Ada'')] ''name''
             = map_of [(''name'', VStr ''Ada''), (''location'', VStr ''Paris'')] ''name''"
    by simp
  have p: "map_of [(''name'', VStr ''Ada'')] ''personality''
             = map_of [(''name'', VStr ''Ada''), (''location'', VStr ''Paris'')] ''personality''"
    by simp
  show ?thesis
    using h generate_character_reply_prefix [OF n p h] by simp
qed

section \<open>Properties of the identifier normalisation\<close>

text \<open>
  C6. For every record mapping, \<open>doc_to_str_id\<close> returns a mapping in which the private
  field \<open>_id\<close> is removed and replaced by a field \<open>id\<close> holding its string representation;
  it never mutates the caller's mapping (every object that was on the heap before the call
  is the same after it, and the result is a new object); a record without \<open>_id\<close> is
  returned unchanged. The result on the heap is the result of the function on dict values.
\<close>

theorem doc_to_str_id_ref_spec:
  assumes "doc < length h"
  shows "(let (h', d) = doc_to_str_id_ref h doc in
     d < length h' \<and> d \<noteq> doc
     \<and> (\<forall>r < length h. h' ! r = h ! r)
     \<and> h' ! d = doc_to_str_id (h ! doc)
     \<and> (case map_of (h ! doc) ''_id'' of
          None \<Rightarrow> h' ! d = h ! doc
        | Some v \<Rightarrow> map_of (h' ! d) ''_id'' = None
              \<and> map_of (h' ! d) ''id'' = Some (VStr (py_str v))
              \<and> (\<forall>k. k \<noteq> ''_id'' \<and> k \<noteq> ''id'' \<longrightarrow> map_of (h' ! d) k = map_of (h ! doc) k)))"
  using assms
  by (auto simp: doc_to_str_id_ref_def dict_copy_def dict_contains_def dict_pop_def
      dict_setitem_def doc_to_str_id_def dict_get_def nth_append update_conv' delete_conv'
      split: option.splits)

theorem doc_to_str_id_ref_spec_witness:
  "(0::nat) < length [[(''_id'', VStr ''u1''), (''name'', VStr ''Ada'')]]
   \<and> doc_to_str_id_ref [[(''_id'', VStr ''u1''), (''name'', VStr ''Ada'')]] 0
       = ([[(''_id'', VStr ''u1''), (''name'', VStr ''Ada'')],
           [(''name'', VStr ''Ada''), (''id'', VStr ''u1'')]], 1)"
  using doc_to_str_id_ref_spec [of 0 "[[(''_id'', VStr ''u1''), (''name'', VStr ''Ada'')]]"]
  by (simp add: doc_to_str_id_ref_def dict_copy_def dict_contains_def dict_pop_def
      dict_setitem_def dict_get_def)

section \<open>Lookups in the store\<close>

lemma matches_single [simp]: "matches [(k, v)] d = (map_of d k = Some v)"
  by (simp add: matches_def)

lemma matches_nil [simp]: "matches [] d"
  by (simp add: matches_def)

lemma find_one_None_iff:
  "find_one coll [(k, v)] = None \<longleftrightarrow> (\<forall>d\<in>set coll. map_of d k \<noteq> Some v)"
  by (auto simp: find_one_def find_None_iff)

lemma find_one_Some_D:
  "find_one coll [(k, v)] = Some d \<Longrightarrow> d \<in> set coll \<and> map_of d k = Some v \<and> d \<noteq> []"
  by (auto simp: find_one_def find_Some_iff)

text \<open>A document found under a filter holds the filter's field, so it is never empty.\<close>

lemma truthy_doc_find_one [simp]:
  "truthy_doc (find_one coll [(k, v)]) = find_one coll [(k, v)]"
  by (cases "find_one coll [(k, v)]") (auto dest: find_one_Some_D)

lemma exists_find_one:
  "list_ex (\<lambda>d. map_of d k = Some v) coll \<Longrightarrow> \<exists>d. find_one coll [(k, v)] = Some d"
  by (cases "find_one coll [(k, v)]") (auto simp: find_one_None_iff list_ex_iff)

lemma mset_find_sort: "mset (find_sort coll flt f dir) = mset (filter (matches flt) coll)"
  by (simp add: find_sort_def Let_def)

lemma sorted_find_sort_asc:
  "0 \<le> dir \<Longrightarrow> sorted (map (\<lambda>d. bson_key (map_of d f)) (find_sort coll flt f dir))"
  by (simp add: find_sort_def Let_def)

lemma sorted_find_sort_desc:
  "dir < 0 \<Longrightarrow> sorted (rev (map (\<lambda>d. bson_key (map_of d f)) (find_sort coll flt f dir)))"
  by (simp add: find_sort_def Let_def rev_map)

lemma map_e_Inr_iff: "map_e f xs = Inr ys \<longleftrightarrow> map f xs = map Inr ys"
proof (induction xs arbitrary: ys)
  case Nil
  then show ?case by auto
next
  case (Cons x xs)
  show ?case
  proof (cases "f x")
    case (Inl e)
    then show ?thesis by (cases ys) auto
  next
    case (Inr y)
    show ?thesis
    proof (cases "map_e f xs")
      case (Inl e)
      with Cons.IH Inr show ?thesis by (cases ys) auto
    next
      case r: (Inr zs)
      with Cons.IH [of zs] Cons.IH Inr show ?thesis by (cases ys) auto
    qed
  qed
qed

lemma map_e_total:
  "(\<And>x. x \<in> set xs \<Longrightarrow> \<exists>y. f x = Inr y) \<Longrightarrow> \<exists>ys. map_e f xs = Inr ys"
proof (induction xs)
  case Nil
  then show ?case by simp
next
  case (Cons x xs)
  then obtain y ys where "f x = Inr y" "map_e f xs = Inr ys" by fastforce
  then show ?case by simp
qed

lemma map_of_doc_to_str_id:
  "k \<noteq> ''_id'' \<Longrightarrow> k \<noteq> ''id'' \<Longrightarrow> map_of (doc_to_str_id m) k = map_of m k"
  by (simp add: doc_to_str_id_def update_conv' delete_conv' split: option.splits)

lemma map_of_doc_to_str_id_id:
  "map_of m ''_id'' = Some v \<Longrightarrow> map_of (doc_to_str_id m) ''id'' = Some (VStr (py_str v))"
  by (simp add: doc_to_str_id_def update_conv' delete_conv')

lemma bind_e_Inr_iff: "bind_e m f = Inr y \<longleftrightarrow> (\<exists>x. m = Inr x \<and> f x = Inr y)"
  by (cases m) (simp_all add: bind_e_def)

lemma dict_index_Inr_iff: "dict_index d k = Inr v \<longleftrightarrow> map_of d k = Some v"
  by (simp add: dict_index_def split: option.splits)

lemma v_str_Some_iff: "v_str v = Some s \<longleftrightarrow> v = VStr s"
  by (cases v) auto

section \<open>Properties of the image handler\<close>

text \<open>
  C1. For every image request with rating NSFW whose character id and username both refer
  to existing records, \<open>generate_image\<close> returns a response with status \<open>blocked\<close>, the fixed
  message and no image URL, whatever the stored user holds (its trust score included).
\<close>

theorem generate_image_nsfw_blocked:
  assumes "character_exists s (ir_character_id req)"
      and "user_exists s (ir_username req)"
      and "ir_rating req = NSFW"
  shows "generate_image hash (Some s) req uid =
           Inr \<lparr>ig_id = uid, ig_status = ''blocked'', ig_message = blocked_message,
                ig_image_url = None\<rparr>"
proof -
  obtain c where c: "find_one (coll_character s) [(''_id'', VStr (ir_character_id req))] = Some c"
    using assms(1) exists_find_one unfolding character_exists_def by blast
  obtain u where u: "find_one (coll_userprofile s) [(''username'', VStr (ir_username req))] = Some u"
    using assms(2) exists_find_one unfolding user_exists_def by blast
  show ?thesis
    unfolding generate_image_def truthy_doc_find_one using c u assms(3) by simp
qed

theorem generate_image_nsfw_blocked_witness:
  "character_exists demo_store ''c1'' \<and> user_exists demo_store ''alice''
   \<and> generate_image (\<lambda>s. 7) (Some demo_store)
       \<lparr>ir_character_id = ''c1'', ir_username = ''alice'', ir_prompt = ''a red fox'',
        ir_style = None, ir_rating = NSFW\<rparr> ''r1''
     = Inr \<lparr>ig_id = ''r1'', ig_status = ''blocked'', ig_message = blocked_message,
            ig_image_url = None\<rparr>"
proof -
  have c: "character_exists demo_store ''c1''"
    by (simp add: character_exists_def demo_store_def demo_character_def)
  have u: "user_exists demo_store ''alice''"
    by (simp add: user_exists_def demo_store_def)
  show ?thesis
    using c u
      generate_image_nsfw_blocked [of demo_store
        "\<lparr>ir_character_id = ''c1'', ir_username = ''alice'', ir_prompt = ''a red fox'',
          ir_style = None, ir_rating = NSFW\<rparr>" "\<lambda>s. 7" "''r1''"]
    by simp
qed




section \<open>Properties of the chat handlers\<close>

lemma map_e_map:
  "(\<And>x. x \<in> set xs \<Longrightarrow> f x = Inr (g x)) \<Longrightarrow> map_e f xs = Inr (map g xs)"
  by (induction xs) simp_all

lemma is_str_D: "is_str (dict_get d k) \<Longrightarrow> \<exists>s. map_of d k = Some (VStr s)"
  by (cases "map_of d k") (auto simp: dict_get_def elim: is_str.elims)

lemma is_time_D: "is_time (dict_get d k) \<Longrightarrow> \<exists>t. map_of d k = Some (VTime t)"
  by (cases "map_of d k") (auto simp: dict_get_def elim: is_time.elims)

text \<open>Documents ordered by a field that holds a timestamp in each are ordered by time.\<close>

lemma sorted_time_of:
  assumes "sorted (map (\<lambda>d. bson_key (map_of d k)) xs)"
      and "\<And>x. x \<in> set xs \<Longrightarrow> is_time (dict_get x k)"
  shows "sorted (map (\<lambda>d. time_of (dict_get d k)) xs)"
proof -
  have key: "bson_key (map_of x k) = (9, int (time_of (dict_get x k)), [])" if "x \<in> set xs" for x
    using is_time_D [OF assms(2) [OF that]] by (auto simp: dict_get_def)
  have "sorted_wrt (\<lambda>x y. bson_key (map_of x k) \<le> bson_key (map_of y k)) xs"
    using assms(1) by (simp add: sorted_map)
  then have "sorted_wrt (\<lambda>x y. time_of (dict_get x k) \<le> time_of (dict_get y k)) xs"
  proof (rule sorted_wrt_mono_rel [rotated])
    fix x y assume "x \<in> set xs" "y \<in> set xs"
      and "bson_key (map_of x k) \<le> bson_key (map_of y k)"
    then show "time_of (dict_get x k) \<le> time_of (dict_get y k)"
      using key [of x] key [of y] by (auto simp: less_eq_prod_def)
  qed
  then show ?thesis by (simp add: sorted_map)
qed

text \<open>The projection of a message document as \<^verbatim>\<open>post_message\<close> writes it is its view.\<close>

lemma MessageOut_of_wf:
  assumes "wf_message m"
  shows "MessageOut_of lax (doc_to_str_id m) = Inr (message_view m)"
proof -
  from assms have "is_str (dict_get m ''_id'')" "is_str (dict_get m ''character_id'')"
    "is_str (dict_get m ''username'')" "is_str (dict_get m ''text'')"
    "is_time (dict_get m ''created_at'')"
    by (simp_all add: wf_message_def)
  then obtain i c u t ts where
    f: "map_of m ''_id'' = Some (VStr i)" "map_of m ''character_id'' = Some (VStr c)"
       "map_of m ''username'' = Some (VStr u)" "map_of m ''text'' = Some (VStr t)"
       "map_of m ''created_at'' = Some (VTime ts)"
    using is_str_D is_time_D by meson
  from assms obtain r where
    r: "map_of m ''role'' = Some (VStr r)" "r = ''user'' \<or> r = ''character''"
    by (auto simp: wf_message_def dict_get_def split: option.splits)
  show ?thesis
    using f r
    by (auto simp: MessageOut_of_def bind_e_def dict_index_def map_of_doc_to_str_id
        map_of_doc_to_str_id_id new_MessageOut_def message_view_def dict_get_def)
qed

lemma read_messages_wf:
  assumes "list_all wf_message
             (filter (\<lambda>m. map_of m ''character_id'' = Some (VStr cid)) coll)"
  shows "\<exists>msgs. read_messages lax coll cid = Inr (map message_view msgs)
           \<and> mset msgs = mset (filter (\<lambda>m. map_of m ''character_id'' = Some (VStr cid)) coll)
           \<and> sorted (map (\<lambda>m. time_of (dict_get m ''created_at'')) msgs)"
proof -
  let ?P = "\<lambda>m. map_of m ''character_id'' = Some (VStr cid)"
  let ?msgs = "find_sort coll [(''character_id'', VStr cid)] ''created_at'' 1"
  have ms: "mset ?msgs = mset (filter ?P coll)"
    by (simp add: mset_find_sort)
  then have "set ?msgs = set (filter ?P coll)"
    by (rule mset_eq_setD)
  with assms have wf: "wf_message m" if "m \<in> set ?msgs" for m
    using that by (simp add: list_all_iff)
  have "map_e (\<lambda>m. MessageOut_of lax (doc_to_str_id m)) ?msgs = Inr (map message_view ?msgs)"
    by (rule map_e_map) (simp add: MessageOut_of_wf wf)
  then have r: "read_messages lax coll cid = Inr (map message_view ?msgs)"
    by (simp add: read_messages_def)
  have "sorted (map (\<lambda>d. bson_key (map_of d ''created_at'')) ?msgs)"
    by (rule sorted_find_sort_asc) simp
  then have "sorted (map (\<lambda>m. time_of (dict_get m ''created_at'')) ?msgs)"
  proof (rule sorted_time_of)
    fix x assume "x \<in> set ?msgs"
    from wf [OF this] show "is_time (dict_get x ''created_at'')"
      by (simp add: wf_message_def)
  qed
  with r ms show ?thesis by blast
qed

lemma read_messages_empty:
  assumes "filter (\<lambda>m. map_of m ''character_id'' = Some (VStr cid)) coll = []"
  shows "read_messages lax coll cid = Inr []"
proof -
  have "filter (matches [(''character_id'', VStr cid)]) coll = []"
    using assms by (auto simp: filter_empty_conv)
  then show ?thesis by (simp add: read_messages_def find_sort_def)
qed

lemma insert_one_fresh:
  "fresh_id coll uid \<Longrightarrow> map_of d ''_id'' = Some (VStr uid) \<Longrightarrow> insert_one coll d = Inr (coll @ [d])"
  by (simp add: insert_one_def fresh_id_def)

lemma fresh_id_append:
  "fresh_id coll uid \<Longrightarrow> map_of d ''_id'' \<noteq> Some (VStr uid) \<Longrightarrow> fresh_id (coll @ [d]) uid"
  by (simp add: fresh_id_def)

lemma post_message_store:
  assumes c: "find_one (coll_character s) [(''_id'', VStr cid)] = Some c"
      and f1: "fresh_id (coll_message s) uid1"
      and f2: "fresh_id (coll_message s) uid2"
      and ne: "uid1 \<noteq> uid2"
  shows "post_message lax (Some s) cid payload now uid1 uid2 =
           (Some (s\<lparr>coll_message := coll_message s
                      @ [user_msg_doc uid1 cid payload now,
                         char_msg_doc uid2 cid c (generate_character_reply c (ci_text payload)) now]\<rparr>),
            read_messages lax
              (coll_message s
                 @ [user_msg_doc uid1 cid payload now,
                    char_msg_doc uid2 cid c (generate_character_reply c (ci_text payload)) now])
              cid)"
proof -
  let ?um = "user_msg_doc uid1 cid payload now"
  let ?cm = "char_msg_doc uid2 cid c (generate_character_reply c (ci_text payload)) now"
  have i1: "insert_one (coll_message s) ?um = Inr (coll_message s @ [?um])"
    by (rule insert_one_fresh [OF f1]) (simp add: user_msg_doc_def)
  have "fresh_id (coll_message s @ [?um]) uid2"
    by (rule fresh_id_append [OF f2]) (simp add: user_msg_doc_def ne)
  then have i2: "insert_one (coll_message s @ [?um]) ?cm = Inr (coll_message s @ [?um, ?cm])"
    using insert_one_fresh [of "coll_message s @ [?um]" uid2 ?cm] by (simp add: char_msg_doc_def)
  show ?thesis
    unfolding post_message_def truthy_doc_find_one using c i1 i2 by (simp add: Let_def)
qed

text \<open>
  Whatever \<^verbatim>\<open>post_message\<close> returns, the store it leaves holds documents as the handlers
  write them, if the store it found did.
\<close>

lemma post_message_keeps_ok:
  assumes ok: "store_ok s"
      and r: "fst (post_message lax (Some s) cid payload now uid1 uid2) = Some s'"
  shows "store_ok s'"
proof (cases "find_one (coll_character s) [(''_id'', VStr cid)]")
  case None
  then show ?thesis
    using ok r unfolding post_message_def truthy_doc_find_one by simp
next
  case (Some c)
  then have "c \<in> set (coll_character s)"
    by (auto dest: find_one_Some_D)
  with ok have "wf_character c"
    by (simp add: store_ok_def list_all_iff)
  then obtain nm where nm: "map_of c ''name'' = Some (VStr nm)"
    using is_str_D by (auto simp: wf_character_def)
  have wum: "wf_message (user_msg_doc uid1 cid payload now)"
    by (simp add: wf_message_def user_msg_doc_def dict_get_def)
  have wcm: "wf_message (char_msg_doc uid2 cid c body now)" for body
    using nm by (simp add: wf_message_def char_msg_doc_def dict_get_def dict_get_default_def)
  show ?thesis
    using ok r Some wum wcm unfolding post_message_def truthy_doc_find_one
    by (auto simp: Let_def insert_one_def store_ok_def split: if_splits)
qed

text \<open>
  C3. For every chat post whose character id does not refer to an existing character,
  \<open>post_message\<close> fails with the not-found error and the store is left as it was: no
  message record is written.
\<close>

theorem post_message_not_found:
  assumes "\<not> character_exists s character_id"
  shows "post_message lax (Some s) character_id payload now uid1 uid2 =
           (Some s, Inl (HTTPException 404 ''Character not found''))"
proof -
  have "find_one (coll_character s) [(''_id'', VStr character_id)] = None"
    using assms by (simp add: find_one_None_iff character_exists_def list_ex_iff)
  then show ?thesis unfolding post_message_def truthy_doc_find_one by simp
qed

theorem post_message_not_found_witness:
  "\<not> character_exists demo_store ''c2''
   \<and> post_message demo_lax (Some demo_store) ''c2'' \<lparr>ci_username = ''alice'', ci_text = ''hi''\<rparr>
       30 ''m2'' ''m3''
     = (Some demo_store, Inl (HTTPException 404 ''Character not found''))"
proof -
  have c: "\<not> character_exists demo_store ''c2''"
    by (simp add: character_exists_def demo_store_def demo_character_def)
  show ?thesis
    using c post_message_not_found [OF c, of demo_lax "\<lparr>ci_username = ''alice'', ci_text = ''hi''\<rparr>" 30 "''m2''" "''m3''"]
    by simp
qed

text \<open>
  C2. For every chat post whose character id refers to an existing character,
  \<open>post_message\<close> appends exactly two message records to the message collection: first one
  with role \<open>user\<close> carrying the given username and text, then one with role \<open>character\<close>
  and the same timestamp, whose username field is the character's name and whose text holds
  the character's name and the first 400 characters of the input text. The identifiers are
  fresh, as \<^verbatim>\<open>uuid4\<close> gives them.
\<close>

theorem post_message_appends_two:
  assumes "find_one (coll_character s) [(''_id'', VStr cid)] = Some c"
      and "map_of c ''name'' = Some (VStr nm)"
      and "fresh_id (coll_message s) uid1"
      and "fresh_id (coll_message s) uid2"
      and "uid1 \<noteq> uid2"
  shows "\<exists>reply mid rest.
           fst (post_message lax (Some s) cid payload now uid1 uid2) =
             Some (s\<lparr>coll_message := coll_message s @
                [[(''_id'', VStr uid1), (''character_id'', VStr cid),
                  (''username'', VStr (ci_username payload)), (''text'', VStr (ci_text payload)),
                  (''role'', VStr ''user''), (''created_at'', VTime now),
                  (''updated_at'', VTime now)],
                 [(''_id'', VStr uid2), (''character_id'', VStr cid),
                  (''username'', VStr nm), (''text'', VStr reply),
                  (''role'', VStr ''character''), (''created_at'', VTime now),
                  (''updated_at'', VTime now)]]\<rparr>)
           \<and> reply = nm @ mid @ take 400 (ci_text payload) @ rest"
proof -
  let ?persona = "dict_get_default c ''personality'' (VStr ''kind and helpful'')"
  let ?mid = "'': As a '' @ py_str ?persona @ '' character, I hear you say: '' @ [CHR 0x27]"
  let ?rest = "[CHR 0x27] @ ''. '' @ ''Here'' @ [CHR 0x27] @ ''s my friendly response: I''
      @ [CHR 0x27] @ ''m excited to chat and co-create images. ''
      @ ''Share more about style, mood, and setting!''"
  have r: "generate_character_reply c (ci_text payload) = nm @ ?mid @ take 400 (ci_text payload) @ ?rest"
    using assms(2) by (simp add: generate_character_reply_def dict_get_default_def)
  have "fst (post_message lax (Some s) cid payload now uid1 uid2) =
          Some (s\<lparr>coll_message := coll_message s
                      @ [user_msg_doc uid1 cid payload now,
                         char_msg_doc uid2 cid c (generate_character_reply c (ci_text payload)) now]\<rparr>)"
    by (simp add: post_message_store [OF assms(1,3,4,5)])
  then have "fst (post_message lax (Some s) cid payload now uid1 uid2) =
             Some (s\<lparr>coll_message := coll_message s @
                [[(''_id'', VStr uid1), (''character_id'', VStr cid),
                  (''username'', VStr (ci_username payload)), (''text'', VStr (ci_text payload)),
                  (''role'', VStr ''user''), (''created_at'', VTime now),
                  (''updated_at'', VTime now)],
                 [(''_id'', VStr uid2), (''character_id'', VStr cid),
                  (''username'', VStr nm),
                  (''text'', VStr (generate_character_reply c (ci_text payload))),
                  (''role'', VStr ''character''), (''created_at'', VTime now),
                  (''updated_at'', VTime now)]]\<rparr>)"
    using assms(2) by (simp add: user_msg_doc_def char_msg_doc_def dict_get_default_def)
  with r show ?thesis by blast
qed

theorem post_message_appends_two_witness:
  "find_one (coll_character demo_store) [(''_id'', VStr ''c1'')] = Some demo_character
   \<and> map_of demo_character ''name'' = Some (VStr ''Ada'')
   \<and> fresh_id (coll_message demo_store) ''m2'' \<and> fresh_id (coll_message demo_store) ''m3''
   \<and> ''m2'' \<noteq> ''m3''
   \<and> (\<exists>reply mid rest.
         fst (post_message demo_lax (Some demo_store) ''c1''
                \<lparr>ci_username = ''bob'', ci_text = ''hi''\<rparr> 30 ''m2'' ''m3'') =
           Some (demo_store\<lparr>coll_message := coll_message demo_store @
              [[(''_id'', VStr ''m2''), (''character_id'', VStr ''c1''),
                (''username'', VStr ''bob''), (''text'', VStr ''hi''),
                (''role'', VStr ''user''), (''created_at'', VTime 30),
                (''updated_at'', VTime 30)],
               [(''_id'', VStr ''m3''), (''character_id'', VStr ''c1''),
                (''username'', VStr ''Ada''), (''text'', VStr reply),
                (''role'', VStr ''character''), (''created_at'', VTime 30),
                (''updated_at'', VTime 30)]]\<rparr>)
         \<and> reply = ''Ada'' @ mid @ take 400 ''hi'' @ rest)"
proof -
  have c: "find_one (coll_character demo_store) [(''_id'', VStr ''c1'')] = Some demo_character"
    by (simp add: find_one_def demo_store_def demo_character_def)
  have n: "map_of demo_character ''name'' = Some (VStr ''Ada'')"
    by (simp add: demo_character_def)
  have f1: "fresh_id (coll_message demo_store) ''m2''"
    by (simp add: fresh_id_def demo_store_def)
  have f2: "fresh_id (coll_message demo_store) ''m3''"
    by (simp add: fresh_id_def demo_store_def)
  have ne: "''m2'' \<noteq> ''m3''" by simp
  show ?thesis
    using c n f1 f2
      post_message_appends_two [OF c n f1 f2 ne, of demo_lax "\<lparr>ci_username = ''bob'', ci_text = ''hi''\<rparr>" 30]
    by simp
qed

text \<open>
  C8. For every successful chat post, \<open>post_message\<close> returns the full message history of
  the character: the view of every stored message whose \<open>character_id\<close> matches, the
  two that the call has just written included, in ascending order of \<open>created_at\<close>. Each
  returned message holds the identifier, character, username, text, role and creation time
  of its stored document. The message documents are as \<^verbatim>\<open>post_message\<close> writes them, the
  character's name is a string, and the identifiers are fresh, as \<^verbatim>\<open>uuid4\<close> gives them.
\<close>

theorem post_message_returns_history:
  assumes c: "find_one (coll_character s) [(''_id'', VStr cid)] = Some c"
      and nm: "map_of c ''name'' = Some (VStr nm)"
      and f1: "fresh_id (coll_message s) uid1"
      and f2: "fresh_id (coll_message s) uid2"
      and ne: "uid1 \<noteq> uid2"
      and wf: "list_all wf_message
                 (filter (\<lambda>m. map_of m ''character_id'' = Some (VStr cid)) (coll_message s))"
  shows "\<exists>out msgs s' um cm.
           post_message lax (Some s) cid payload now uid1 uid2 = (Some s', Inr out)
           \<and> coll_message s' = coll_message s @ [um, cm]
           \<and> mset msgs =
               mset (filter (\<lambda>m. map_of m ''character_id'' = Some (VStr cid)) (coll_message s'))
           \<and> out = map message_view msgs
           \<and> sorted (map mo_created_at out)
           \<and> length out =
               length (filter (\<lambda>m. map_of m ''character_id'' = Some (VStr cid)) (coll_message s)) + 2
           \<and> um \<in> set msgs \<and> cm \<in> set msgs
           \<and> message_view um =
               \<lparr>mo_id = uid1, mo_character_id = cid, mo_username = ci_username payload,
                mo_text = ci_text payload, mo_role = ''user'', mo_created_at = now\<rparr>
           \<and> message_view cm =
               \<lparr>mo_id = uid2, mo_character_id = cid, mo_username = nm,
                mo_text = generate_character_reply c (ci_text payload),
                mo_role = ''character'', mo_created_at = now\<rparr>"
proof -
  let ?um = "user_msg_doc uid1 cid payload now"
  let ?cm = "char_msg_doc uid2 cid c (generate_character_reply c (ci_text payload)) now"
  let ?coll = "coll_message s @ [?um, ?cm]"
  let ?P = "\<lambda>m. map_of m ''character_id'' = Some (VStr cid)"
  let ?s' = "s\<lparr>coll_message := ?coll\<rparr>"
  have wum: "wf_message ?um"
    by (simp add: wf_message_def user_msg_doc_def dict_get_def)
  have wcm: "wf_message ?cm"
    using nm by (simp add: wf_message_def char_msg_doc_def dict_get_def dict_get_default_def)
  have pum: "?P ?um" by (simp add: user_msg_doc_def)
  have pcm: "?P ?cm" by (simp add: char_msg_doc_def)
  have "list_all wf_message (filter ?P ?coll)"
    using wf wum wcm pum pcm by simp
  from read_messages_wf [OF this, of lax] obtain msgs where
    rd: "read_messages lax ?coll cid = Inr (map message_view msgs)"
    and ms: "mset msgs = mset (filter ?P ?coll)"
    and so: "sorted (map (\<lambda>m. time_of (dict_get m ''created_at'')) msgs)"
    by blast
  have p: "post_message lax (Some s) cid payload now uid1 uid2 = (Some ?s', Inr (map message_view msgs))"
    using post_message_store [OF c f1 f2 ne, of lax payload now] rd by simp
  have st: "coll_message ?s' = coll_message s @ [?um, ?cm]" by simp
  have ms': "mset msgs = mset (filter ?P (coll_message ?s'))"
    using ms by simp
  have so': "sorted (map mo_created_at (map message_view msgs))"
    using so by (simp add: message_view_def comp_def)
  have "length msgs = length (filter ?P ?coll)"
    using ms by (rule mset_eq_length)
  then have len: "length (map message_view msgs) = length (filter ?P (coll_message s)) + 2"
    using pum pcm by simp
  have "set msgs = set (filter ?P ?coll)"
    using ms by (rule mset_eq_setD)
  then have mem: "?um \<in> set msgs" "?cm \<in> set msgs"
    using pum pcm by simp_all
  have vum: "message_view ?um =
               \<lparr>mo_id = uid1, mo_character_id = cid, mo_username = ci_username payload,
                mo_text = ci_text payload, mo_role = ''user'', mo_created_at = now\<rparr>"
    by (simp add: message_view_def user_msg_doc_def dict_get_def)
  have vcm: "message_view ?cm =
               \<lparr>mo_id = uid2, mo_character_id = cid, mo_username = nm,
                mo_text = generate_character_reply c (ci_text payload),
                mo_role = ''character'', mo_created_at = now\<rparr>"
    using nm by (simp add: message_view_def char_msg_doc_def dict_get_def dict_get_default_def)
  show ?thesis
    apply (rule exI [of _ "map message_view msgs"], rule exI [of _ msgs], rule exI [of _ ?s'])
    apply (rule exI [of _ ?um], rule exI [of _ ?cm])
    apply (intro conjI)
    apply (rule p, rule st, rule ms', rule refl, rule so', rule len)
    apply (rule mem, rule mem, rule vum, rule vcm)
    done
qed

theorem post_message_returns_history_witness:
  "find_one (coll_character demo_store) [(''_id'', VStr ''c1'')] = Some demo_character
   \<and> map_of demo_character ''name'' = Some (VStr ''Ada'')
   \<and> fresh_id (coll_message demo_store) ''m2'' \<and> fresh_id (coll_message demo_store) ''m3''
   \<and> ''m2'' \<noteq> ''m3''
   \<and> list_all wf_message
         (filter (\<lambda>m. map_of m ''character_id'' = Some (VStr ''c1'')) (coll_message demo_store))
   \<and> snd (post_message demo_lax (Some demo_store) ''c1''
             \<lparr>ci_username = ''bob'', ci_text = ''hi''\<rparr> 30 ''m2'' ''m3'')
       = Inr [\<lparr>mo_id = ''m1'', mo_character_id = ''c1'', mo_username = ''alice'',
               mo_text = ''hello'', mo_role = ''user'', mo_created_at = 20\<rparr>,
              \<lparr>mo_id = ''m2'', mo_character_id = ''c1'', mo_username = ''bob'',
               mo_text = ''hi'', mo_role = ''user'', mo_created_at = 30\<rparr>,
              \<lparr>mo_id = ''m3'', mo_character_id = ''c1'', mo_username = ''Ada'',
               mo_text = generate_character_reply demo_character ''hi'',
               mo_role = ''character'', mo_created_at = 30\<rparr>]"
proof -
  have c: "find_one (coll_character demo_store) [(''_id'', VStr ''c1'')] = Some demo_character"
    by (simp add: find_one_def demo_store_def demo_character_def)
  have n: "map_of demo_character ''name'' = Some (VStr ''Ada'')"
    by (simp add: demo_character_def)
  have f1: "fresh_id (coll_message demo_store) ''m2''"
    by (simp add: fresh_id_def demo_store_def)
  have f2: "fresh_id (coll_message demo_store) ''m3''"
    by (simp add: fresh_id_def demo_store_def)
  have ne: "''m2'' \<noteq> ''m3''" by simp
  have wf: "list_all wf_message
         (filter (\<lambda>m. map_of m ''character_id'' = Some (VStr ''c1'')) (coll_message demo_store))"
    by (simp add: demo_store_def wf_message_def dict_get_def)
  have ev: "snd (post_message demo_lax (Some demo_store) ''c1''
             \<lparr>ci_username = ''bob'', ci_text = ''hi''\<rparr> 30 ''m2'' ''m3'')
       = Inr [\<lparr>mo_id = ''m1'', mo_character_id = ''c1'', mo_username = ''alice'',
               mo_text = ''hello'', mo_role = ''user'', mo_created_at = 20\<rparr>,
              \<lparr>mo_id = ''m2'', mo_character_id = ''c1'', mo_username = ''bob'',
               mo_text = ''hi'', mo_role = ''user'', mo_created_at = 30\<rparr>,
              \<lparr>mo_id = ''m3'', mo_character_id = ''c1'', mo_username = ''Ada'',
               mo_text = generate_character_reply demo_character ''hi'',
               mo_role = ''character'', mo_created_at = 30\<rparr>]"
    unfolding post_message_store [OF c f1 f2 ne]
    by (simp add: read_messages_def find_sort_def MessageOut_of_def doc_to_str_id_def
        bind_e_def dict_index_def new_MessageOut_def demo_store_def user_msg_doc_def
        char_msg_doc_def dict_get_default_def demo_character_def less_eq_prod_def)
  show ?thesis
    using c n f1 f2 wf ev
      post_message_returns_history [OF c n f1 f2 ne wf, of demo_lax "\<lparr>ci_username = ''bob'', ci_text = ''hi''\<rparr>" 30]
    by simp
qed

text \<open>
  C9. For every character id, \<open>get_messages\<close> makes no existence check on the character:
  its result is the same whatever the character collection holds. For a character id
  without messages, that of a character that does not exist included, it returns the
  empty list and no error. When the messages of the character are as \<^verbatim>\<open>post_message\<close>
  writes them, it returns the message history: the view of every stored message whose
  \<open>character_id\<close> matches, each with the identifier, character, username, text, role and
  creation time of its stored document, in ascending order of \<open>created_at\<close>.
\<close>

theorem get_messages_no_existence_check:
  "get_messages lax (Some (s\<lparr>coll_character := cs\<rparr>)) cid = get_messages lax (Some s) cid
   \<and> (filter (\<lambda>m. map_of m ''character_id'' = Some (VStr cid)) (coll_message s) = []
        \<longrightarrow> get_messages lax (Some s) cid = Inr [])
   \<and> (list_all wf_message
         (filter (\<lambda>m. map_of m ''character_id'' = Some (VStr cid)) (coll_message s))
        \<longrightarrow> (\<exists>out msgs.
               get_messages lax (Some s) cid = Inr out
               \<and> mset msgs =
                   mset (filter (\<lambda>m. map_of m ''character_id'' = Some (VStr cid)) (coll_message s))
               \<and> out = map message_view msgs
               \<and> sorted (map mo_created_at out)))"
proof (intro conjI impI)
  show "get_messages lax (Some (s\<lparr>coll_character := cs\<rparr>)) cid = get_messages lax (Some s) cid"
    by (simp add: get_messages_def)
next
  assume "filter (\<lambda>m. map_of m ''character_id'' = Some (VStr cid)) (coll_message s) = []"
  then show "get_messages lax (Some s) cid = Inr []"
    by (simp add: get_messages_def read_messages_empty)
next
  assume "list_all wf_message
            (filter (\<lambda>m. map_of m ''character_id'' = Some (VStr cid)) (coll_message s))"
  from read_messages_wf [OF this, of lax] obtain msgs where
    rd: "read_messages lax (coll_message s) cid = Inr (map message_view msgs)"
    and ms: "mset msgs =
               mset (filter (\<lambda>m. map_of m ''character_id'' = Some (VStr cid)) (coll_message s))"
    and so: "sorted (map (\<lambda>m. time_of (dict_get m ''created_at'')) msgs)"
    by blast
  have g: "get_messages lax (Some s) cid = Inr (map message_view msgs)"
    using rd by (simp add: get_messages_def)
  have so': "sorted (map mo_created_at (map message_view msgs))"
    using so by (simp add: message_view_def comp_def)
  show "\<exists>out msgs.
               get_messages lax (Some s) cid = Inr out
               \<and> mset msgs =
                   mset (filter (\<lambda>m. map_of m ''character_id'' = Some (VStr cid)) (coll_message s))
               \<and> out = map message_view msgs
               \<and> sorted (map mo_created_at out)"
    apply (rule exI [of _ "map message_view msgs"], rule exI [of _ msgs])
    apply (intro conjI)
    apply (rule g, rule ms, rule refl, rule so')
    done
qed

theorem get_messages_no_existence_check_witness:
  "get_messages demo_lax (Some (demo_store\<lparr>coll_character := []\<rparr>)) ''c1''
       = get_messages demo_lax (Some demo_store) ''c1''
   \<and> find_one (coll_character demo_store) [(''_id'', VStr ''c9'')] = None
   \<and> filter (\<lambda>m. map_of m ''character_id'' = Some (VStr ''c9'')) (coll_message demo_store) = []
   \<and> get_messages demo_lax (Some demo_store) ''c9'' = Inr []
   \<and> list_all wf_message
       (filter (\<lambda>m. map_of m ''character_id'' = Some (VStr ''c1'')) demo_history)
   \<and> get_messages demo_lax (Some (demo_store\<lparr>coll_message := demo_history\<rparr>)) ''c1''
       = Inr [\<lparr>mo_id = ''m0'', mo_character_id = ''c1'', mo_username = ''Ada'',
               mo_text = ''welcome'', mo_role = ''character'', mo_created_at = 5\<rparr>,
              \<lparr>mo_id = ''m1'', mo_character_id = ''c1'', mo_username = ''alice'',
               mo_text = ''hello'', mo_role = ''user'', mo_created_at = 20\<rparr>]"
proof -
  have c: "find_one (coll_character demo_store) [(''_id'', VStr ''c9'')] = None"
    by (simp add: find_one_def demo_store_def demo_character_def)
  have m: "filter (\<lambda>m. map_of m ''character_id'' = Some (VStr ''c9'')) (coll_message demo_store) = []"
    by (simp add: demo_store_def)
  have wf: "list_all wf_message
       (filter (\<lambda>m. map_of m ''character_id'' = Some (VStr ''c1'')) demo_history)"
    by (simp add: demo_history_def wf_message_def dict_get_def)
  have e: "get_messages demo_lax (Some (demo_store\<lparr>coll_character := []\<rparr>)) ''c1''
       = get_messages demo_lax (Some demo_store) ''c1''"
    by (simp add: get_messages_def)
  have ev: "get_messages demo_lax (Some (demo_store\<lparr>coll_message := demo_history\<rparr>)) ''c1''
       = Inr [\<lparr>mo_id = ''m0'', mo_character_id = ''c1'', mo_username = ''Ada'',
               mo_text = ''welcome'', mo_role = ''character'', mo_created_at = 5\<rparr>,
              \<lparr>mo_id = ''m1'', mo_character_id = ''c1'', mo_username = ''alice'',
               mo_text = ''hello'', mo_role = ''user'', mo_created_at = 20\<rparr>]"
    by (simp add: get_messages_def read_messages_def find_sort_def MessageOut_of_def
        doc_to_str_id_def bind_e_def dict_index_def new_MessageOut_def demo_history_def
        less_eq_prod_def)
  show ?thesis
    using c m wf e ev
      get_messages_no_existence_check [where lax = demo_lax and s = demo_store and cs = "[]"
        and cid = "''c9''"]
      get_messages_no_existence_check [where lax = demo_lax
        and s = "demo_store\<lparr>coll_message := demo_history\<rparr>" and cs = "[]" and cid = "''c1''"]
    by simp
qed

section \<open>Properties of the character handlers\<close>

lemma v_opt_str_is: "is_opt_str v \<Longrightarrow> v_opt_str v = Some (opt_str_of v)"
  by (cases v) simp_all

lemma v_bool_is: "is_bool v \<Longrightarrow> v_bool lax v = Some (bool_of v)"
  by (cases v) simp_all

text \<open>The projection of a character document as \<^verbatim>\<open>create_character\<close> writes it is its view.\<close>

lemma CharacterOut_of_wf:
  assumes "wf_character c"
  shows "CharacterOut_of lax (doc_to_str_id c) = Inr (character_view c)"
proof -
  from assms have "is_str (dict_get c ''_id'')" "is_str (dict_get c ''name'')"
    "is_str (dict_get c ''personality'')" "is_str (dict_get c ''creator_username'')"
    "is_time (dict_get c ''created_at'')"
    by (simp_all add: wf_character_def)
  then obtain i n p cu t where
    f: "map_of c ''_id'' = Some (VStr i)" "map_of c ''name'' = Some (VStr n)"
       "map_of c ''personality'' = Some (VStr p)"
       "map_of c ''creator_username'' = Some (VStr cu)"
       "map_of c ''created_at'' = Some (VTime t)"
    using is_str_D is_time_D by meson
  from assms have
    o: "v_opt_str (dict_get c ''appearance'') = Some (opt_str_of (dict_get c ''appearance''))"
       "v_opt_str (dict_get c ''location'') = Some (opt_str_of (dict_get c ''location''))"
       "v_bool lax (dict_get_default c ''nsfw_allowed'' (VBool False))
          = Some (bool_of (dict_get_default c ''nsfw_allowed'' (VBool False)))"
    by (simp_all add: wf_character_def v_opt_str_is v_bool_is)
  have g: "dict_get (doc_to_str_id c) ''appearance'' = dict_get c ''appearance''"
          "dict_get (doc_to_str_id c) ''location'' = dict_get c ''location''"
          "dict_get_default (doc_to_str_id c) ''nsfw_allowed'' (VBool False)
             = dict_get_default c ''nsfw_allowed'' (VBool False)"
    by (simp_all add: dict_get_def dict_get_default_def map_of_doc_to_str_id)
  have v: "character_view c =
          \<lparr>co_id = i, co_name = n, co_personality = p,
           co_appearance = opt_str_of (dict_get c ''appearance''),
           co_location = opt_str_of (dict_get c ''location''),
           co_creator_username = cu,
           co_nsfw_allowed = bool_of (dict_get_default c ''nsfw_allowed'' (VBool False)),
           co_created_at = t\<rparr>"
    using f by (simp add: character_view_def dict_get_def)
  show ?thesis
    unfolding v using f
    by (simp add: CharacterOut_of_def bind_e_def dict_index_def map_of_doc_to_str_id
        map_of_doc_to_str_id_id new_CharacterOut_def g o)
qed

lemma list_characters_wf:
  assumes "list_all wf_character (coll_character s)"
  shows "\<exists>docs. list_characters lax (Some s) = Inr (map character_view docs)
           \<and> mset docs = mset (coll_character s)
           \<and> sorted (rev (map (\<lambda>d. time_of (dict_get d ''created_at'')) docs))"
proof -
  let ?docs = "find_sort (coll_character s) [] ''created_at'' (- 1)"
  have ms: "mset ?docs = mset (coll_character s)"
    by (simp add: mset_find_sort)
  then have "set ?docs = set (coll_character s)"
    by (rule mset_eq_setD)
  with assms have wf: "wf_character d" if "d \<in> set ?docs" for d
    using that by (simp add: list_all_iff)
  have "map_e (\<lambda>d. CharacterOut_of lax (doc_to_str_id d)) ?docs = Inr (map character_view ?docs)"
    by (rule map_e_map) (simp add: CharacterOut_of_wf wf)
  then have r: "list_characters lax (Some s) = Inr (map character_view ?docs)"
    by (simp add: list_characters_def)
  have "sorted (map (\<lambda>d. bson_key (map_of d ''created_at'')) (rev ?docs))"
    using sorted_find_sort_desc [of "- 1" "''created_at''" "coll_character s" "[]"]
    by (simp add: rev_map)
  then have "sorted (map (\<lambda>d. time_of (dict_get d ''created_at'')) (rev ?docs))"
  proof (rule sorted_time_of)
    fix x assume "x \<in> set (rev ?docs)"
    then have "x \<in> set ?docs" by simp
    from wf [OF this] show "is_time (dict_get x ''created_at'')"
      by (simp add: wf_character_def)
  qed
  then have "sorted (rev (map (\<lambda>d. time_of (dict_get d ''created_at'')) ?docs))"
    by (simp add: rev_map)
  with r ms show ?thesis by blast
qed

lemma wf_character_doc: "wf_character (character_doc chr now uid)"
  by (cases "ch_appearance chr"; cases "ch_location chr")
     (simp_all add: wf_character_def character_doc_def dict_get_def dict_get_default_def
       opt_str_val_def)

lemma character_doc_eq:
  "AList.update ''_id'' (VStr uid)
     (AList.update ''updated_at'' (VTime now)
       (AList.update ''created_at'' (VTime now) (model_dump_Character chr)))
   = character_doc chr now uid"
  by (simp add: model_dump_Character_def character_doc_def)

lemma character_view_doc:
  "character_view (character_doc chr now uid) =
     \<lparr>co_id = uid, co_name = ch_name chr, co_personality = ch_personality chr,
      co_appearance = ch_appearance chr, co_location = ch_location chr,
      co_creator_username = ch_creator_username chr,
      co_nsfw_allowed = ch_nsfw_allowed chr, co_created_at = now\<rparr>"
  by (cases "ch_appearance chr"; cases "ch_location chr")
     (simp_all add: character_view_def character_doc_def dict_get_def dict_get_default_def
       opt_str_val_def)

text \<open>With an identifier that no stored character has, the document is inserted.\<close>

lemma create_character_fresh:
  assumes "fresh_id (coll_character s) uid"
  shows "create_character lax (Some s) chr now uid =
           (Some (s\<lparr>coll_character := coll_character s @ [character_doc chr now uid]\<rparr>),
            Inr \<lparr>co_id = uid, co_name = ch_name chr, co_personality = ch_personality chr,
                 co_appearance = ch_appearance chr, co_location = ch_location chr,
                 co_creator_username = ch_creator_username chr,
                 co_nsfw_allowed = ch_nsfw_allowed chr, co_created_at = now\<rparr>)"
proof -
  have i: "insert_one (coll_character s) (character_doc chr now uid)
             = Inr (coll_character s @ [character_doc chr now uid])"
    by (rule insert_one_fresh [OF assms]) (simp add: character_doc_def)
  have o: "CharacterOut_of lax (doc_to_str_id (character_doc chr now uid)) =
             Inr \<lparr>co_id = uid, co_name = ch_name chr, co_personality = ch_personality chr,
                 co_appearance = ch_appearance chr, co_location = ch_location chr,
                 co_creator_username = ch_creator_username chr,
                 co_nsfw_allowed = ch_nsfw_allowed chr, co_created_at = now\<rparr>"
    using CharacterOut_of_wf [OF wf_character_doc, of lax chr now uid]
    by (simp add: character_view_doc)
  show ?thesis
    unfolding create_character_def by (simp add: Let_def character_doc_eq i o)
qed

text \<open>With an identifier that a stored character has, nothing is written.\<close>

lemma create_character_stored:
  assumes "\<not> fresh_id (coll_character s) uid"
  shows "create_character lax (Some s) chr now uid = (Some s, Inl DuplicateKeyError)"
proof -
  have "insert_one (coll_character s) (character_doc chr now uid) = Inl DuplicateKeyError"
    using assms by (simp add: insert_one_def fresh_id_def character_doc_def)
  then show ?thesis
    unfolding create_character_def by (simp add: Let_def character_doc_eq)
qed

lemma create_character_keeps_ok:
  assumes ok: "store_ok s"
      and r: "fst (create_character lax (Some s) chr now uid) = Some s'"
  shows "store_ok s'"
proof (cases "fresh_id (coll_character s) uid")
  case True
  from r have "s' = s\<lparr>coll_character := coll_character s @ [character_doc chr now uid]\<rparr>"
    by (simp add: create_character_fresh [OF True])
  then show ?thesis
    using ok wf_character_doc by (simp add: store_ok_def)
next
  case False
  from r have "s' = s"
    by (simp add: create_character_stored [OF False])
  then show ?thesis using ok by simp
qed

text \<open>
  C7. Creating two characters with identical input fields inserts two separate records with
  two distinct ids. Whenever both calls of \<open>create_character\<close> return a character, the two
  returned ids are distinct, the collection has grown by exactly the two new documents,
  nothing is merged, and each new document has \<open>created_at\<close> equal to \<open>updated_at\<close>; both
  calls do return a character when the identifiers are fresh, as \<^verbatim>\<open>uuid4\<close> gives them;
  and a call with an identifier that a stored character has writes nothing and raises, so
  that creation never updates a stored record. On a collection of character documents as
  \<open>create_character\<close> writes them, \<open>list_characters\<close> returns the view of every stored
  character, each with the eight fields of its stored document, in descending order of
  \<open>created_at\<close>, newest first.
\<close>

theorem create_character_twice_and_list:
  "(create_character lax (Some s) chr t1 u1 = (Some s1, Inr out1)
      \<and> create_character lax (Some s1) chr t2 u2 = (Some s2, Inr out2)
     \<longrightarrow> co_id out1 \<noteq> co_id out2
         \<and> out1 = \<lparr>co_id = u1, co_name = ch_name chr, co_personality = ch_personality chr,
                   co_appearance = ch_appearance chr, co_location = ch_location chr,
                   co_creator_username = ch_creator_username chr,
                   co_nsfw_allowed = ch_nsfw_allowed chr, co_created_at = t1\<rparr>
         \<and> out2 = \<lparr>co_id = u2, co_name = ch_name chr, co_personality = ch_personality chr,
                   co_appearance = ch_appearance chr, co_location = ch_location chr,
                   co_creator_username = ch_creator_username chr,
                   co_nsfw_allowed = ch_nsfw_allowed chr, co_created_at = t2\<rparr>
         \<and> s2 = s\<lparr>coll_character := coll_character s @
                  [[(''name'', VStr (ch_name chr)),
                    (''personality'', VStr (ch_personality chr)),
                    (''appearance'', opt_str_val (ch_appearance chr)),
                    (''location'', opt_str_val (ch_location chr)),
                    (''creator_username'', VStr (ch_creator_username chr)),
                    (''nsfw_allowed'', VBool (ch_nsfw_allowed chr)),
                    (''created_at'', VTime t1), (''updated_at'', VTime t1),
                    (''_id'', VStr u1)],
                   [(''name'', VStr (ch_name chr)),
                    (''personality'', VStr (ch_personality chr)),
                    (''appearance'', opt_str_val (ch_appearance chr)),
                    (''location'', opt_str_val (ch_location chr)),
                    (''creator_username'', VStr (ch_creator_username chr)),
                    (''nsfw_allowed'', VBool (ch_nsfw_allowed chr)),
                    (''created_at'', VTime t2), (''updated_at'', VTime t2),
                    (''_id'', VStr u2)]]\<rparr>)
   \<and> (fresh_id (coll_character s) u1 \<and> fresh_id (coll_character s) u2 \<and> u1 \<noteq> u2
     \<longrightarrow> (\<exists>s1 s2 out1 out2.
            create_character lax (Some s) chr t1 u1 = (Some s1, Inr out1)
          \<and> create_character lax (Some s1) chr t2 u2 = (Some s2, Inr out2)))
   \<and> (\<not> fresh_id (coll_character s) u
     \<longrightarrow> create_character lax (Some s) chr t u = (Some s, Inl DuplicateKeyError))
   \<and> (list_all wf_character (coll_character s')
     \<longrightarrow> (\<exists>items docs.
            list_characters lax (Some s') = Inr items
          \<and> mset docs = mset (coll_character s')
          \<and> items = map character_view docs
          \<and> sorted (rev (map co_created_at items))))"
proof (intro conjI impI)
  assume a: "create_character lax (Some s) chr t1 u1 = (Some s1, Inr out1)
      \<and> create_character lax (Some s1) chr t2 u2 = (Some s2, Inr out2)"
  have f1: "fresh_id (coll_character s) u1"
  proof (rule ccontr)
    assume "\<not> fresh_id (coll_character s) u1"
    from create_character_stored [OF this, of lax chr t1] a show False by simp
  qed
  from a create_character_fresh [OF f1, of lax chr t1]
  have s1: "s1 = s\<lparr>coll_character := coll_character s @ [character_doc chr t1 u1]\<rparr>"
    and o1: "out1 = \<lparr>co_id = u1, co_name = ch_name chr, co_personality = ch_personality chr,
                   co_appearance = ch_appearance chr, co_location = ch_location chr,
                   co_creator_username = ch_creator_username chr,
                   co_nsfw_allowed = ch_nsfw_allowed chr, co_created_at = t1\<rparr>"
    by simp_all
  have f2: "fresh_id (coll_character s1) u2"
  proof (rule ccontr)
    assume "\<not> fresh_id (coll_character s1) u2"
    from create_character_stored [OF this, of lax chr t2] a show False by simp
  qed
  from a create_character_fresh [OF f2, of lax chr t2]
  have s2: "s2 = s1\<lparr>coll_character := coll_character s1 @ [character_doc chr t2 u2]\<rparr>"
    and o2: "out2 = \<lparr>co_id = u2, co_name = ch_name chr, co_personality = ch_personality chr,
                   co_appearance = ch_appearance chr, co_location = ch_location chr,
                   co_creator_username = ch_creator_username chr,
                   co_nsfw_allowed = ch_nsfw_allowed chr, co_created_at = t2\<rparr>"
    by simp_all
  from f2 s1 have "u1 \<noteq> u2"
    by (auto simp: fresh_id_def character_doc_def)
  then show "co_id out1 \<noteq> co_id out2"
    by (simp add: o1 o2)
  show "out1 = \<lparr>co_id = u1, co_name = ch_name chr, co_personality = ch_personality chr,
                   co_appearance = ch_appearance chr, co_location = ch_location chr,
                   co_creator_username = ch_creator_username chr,
                   co_nsfw_allowed = ch_nsfw_allowed chr, co_created_at = t1\<rparr>"
    by (rule o1)
  show "out2 = \<lparr>co_id = u2, co_name = ch_name chr, co_personality = ch_personality chr,
                   co_appearance = ch_appearance chr, co_location = ch_location chr,
                   co_creator_username = ch_creator_username chr,
                   co_nsfw_allowed = ch_nsfw_allowed chr, co_created_at = t2\<rparr>"
    by (rule o2)
  show "s2 = s\<lparr>coll_character := coll_character s @
                  [[(''name'', VStr (ch_name chr)),
                    (''personality'', VStr (ch_personality chr)),
                    (''appearance'', opt_str_val (ch_appearance chr)),
                    (''location'', opt_str_val (ch_location chr)),
                    (''creator_username'', VStr (ch_creator_username chr)),
                    (''nsfw_allowed'', VBool (ch_nsfw_allowed chr)),
                    (''created_at'', VTime t1), (''updated_at'', VTime t1),
                    (''_id'', VStr u1)],
                   [(''name'', VStr (ch_name chr)),
                    (''personality'', VStr (ch_personality chr)),
                    (''appearance'', opt_str_val (ch_appearance chr)),
                    (''location'', opt_str_val (ch_location chr)),
                    (''creator_username'', VStr (ch_creator_username chr)),
                    (''nsfw_allowed'', VBool (ch_nsfw_allowed chr)),
                    (''created_at'', VTime t2), (''updated_at'', VTime t2),
                    (''_id'', VStr u2)]]\<rparr>"
    by (simp add: s2 s1 character_doc_def)
next
  assume f: "fresh_id (coll_character s) u1 \<and> fresh_id (coll_character s) u2 \<and> u1 \<noteq> u2"
  let ?d1 = "character_doc chr t1 u1"
  let ?s1 = "s\<lparr>coll_character := coll_character s @ [?d1]\<rparr>"
  from f have c1: "create_character lax (Some s) chr t1 u1 =
           (Some ?s1,
            Inr \<lparr>co_id = u1, co_name = ch_name chr, co_personality = ch_personality chr,
                 co_appearance = ch_appearance chr, co_location = ch_location chr,
                 co_creator_username = ch_creator_username chr,
                 co_nsfw_allowed = ch_nsfw_allowed chr, co_created_at = t1\<rparr>)"
    by (simp add: create_character_fresh)
  from f have "fresh_id (coll_character ?s1) u2"
    using fresh_id_append [of "coll_character s" u2 ?d1] by (simp add: character_doc_def)
  from create_character_fresh [OF this, of lax chr t2] c1
  show "\<exists>s1 s2 out1 out2.
            create_character lax (Some s) chr t1 u1 = (Some s1, Inr out1)
          \<and> create_character lax (Some s1) chr t2 u2 = (Some s2, Inr out2)"
    by blast
next
  assume "\<not> fresh_id (coll_character s) u"
  then show "create_character lax (Some s) chr t u = (Some s, Inl DuplicateKeyError)"
    by (rule create_character_stored)
next
  assume "list_all wf_character (coll_character s')"
  from list_characters_wf [OF this, of lax] obtain docs where
    r: "list_characters lax (Some s') = Inr (map character_view docs)"
    and ms: "mset docs = mset (coll_character s')"
    and so: "sorted (rev (map (\<lambda>d. time_of (dict_get d ''created_at'')) docs))"
    by blast
  have so': "sorted (rev (map co_created_at (map character_view docs)))"
    using so by (simp add: character_view_def comp_def)
  show "\<exists>items docs.
            list_characters lax (Some s') = Inr items
          \<and> mset docs = mset (coll_character s')
          \<and> items = map character_view docs
          \<and> sorted (rev (map co_created_at items))"
    apply (rule exI [of _ "map character_view docs"], rule exI [of _ docs])
    apply (intro conjI)
    apply (rule r, rule ms, rule refl, rule so')
    done
qed

theorem create_character_twice_and_list_witness:
  "create_character demo_lax (Some demo_store) demo_new_character 40 ''c2''
     = (Some (demo_store\<lparr>coll_character :=
                [demo_character, character_doc demo_new_character 40 ''c2'']\<rparr>),
        Inr \<lparr>co_id = ''c2'', co_name = ''Ben'', co_personality = ''bold'',
             co_appearance = Some ''tall'', co_location = None,
             co_creator_username = ''alice'', co_nsfw_allowed = False, co_created_at = 40\<rparr>)
   \<and> create_character demo_lax
       (Some (demo_store\<lparr>coll_character :=
                [demo_character, character_doc demo_new_character 40 ''c2'']\<rparr>))
       demo_new_character 50 ''c3''
     = (Some (demo_store\<lparr>coll_character :=
                [demo_character, character_doc demo_new_character 40 ''c2'',
                 character_doc demo_new_character 50 ''c3'']\<rparr>),
        Inr \<lparr>co_id = ''c3'', co_name = ''Ben'', co_personality = ''bold'',
             co_appearance = Some ''tall'', co_location = None,
             co_creator_username = ''alice'', co_nsfw_allowed = False, co_created_at = 50\<rparr>)
   \<and> fresh_id (coll_character demo_store) ''c2'' \<and> fresh_id (coll_character demo_store) ''c3''
   \<and> ''c2'' \<noteq> ''c3''
   \<and> \<not> fresh_id (coll_character demo_store) ''c1''
   \<and> create_character demo_lax (Some demo_store) demo_new_character 40 ''c1''
     = (Some demo_store, Inl DuplicateKeyError)
   \<and> list_all wf_character
       [demo_character, character_doc demo_new_character 40 ''c2'',
        character_doc demo_new_character 50 ''c3'']
   \<and> list_characters demo_lax
       (Some (demo_store\<lparr>coll_character :=
                [demo_character, character_doc demo_new_character 40 ''c2'',
                 character_doc demo_new_character 50 ''c3'']\<rparr>))
     = Inr [\<lparr>co_id = ''c3'', co_name = ''Ben'', co_personality = ''bold'',
             co_appearance = Some ''tall'', co_location = None,
             co_creator_username = ''alice'', co_nsfw_allowed = False, co_created_at = 50\<rparr>,
            \<lparr>co_id = ''c2'', co_name = ''Ben'', co_personality = ''bold'',
             co_appearance = Some ''tall'', co_location = None,
             co_creator_username = ''alice'', co_nsfw_allowed = False, co_created_at = 40\<rparr>,
            \<lparr>co_id = ''c1'', co_name = ''Ada'', co_personality = ''calm'',
             co_appearance = None, co_location = Some ''Paris'',
             co_creator_username = ''alice'', co_nsfw_allowed = False, co_created_at = 10\<rparr>]"
proof -
  let ?s1 = "demo_store\<lparr>coll_character :=
                [demo_character, character_doc demo_new_character 40 ''c2'']\<rparr>"
  let ?s2 = "demo_store\<lparr>coll_character :=
                [demo_character, character_doc demo_new_character 40 ''c2'',
                 character_doc demo_new_character 50 ''c3'']\<rparr>"
  have cc: "coll_character demo_store = [demo_character]"
    by (simp add: demo_store_def)
  have f1: "fresh_id (coll_character demo_store) ''c2''"
    by (simp add: fresh_id_def cc demo_character_def)
  have f2: "fresh_id (coll_character demo_store) ''c3''"
    by (simp add: fresh_id_def cc demo_character_def)
  have f3: "fresh_id (coll_character ?s1) ''c3''"
    by (simp add: fresh_id_def demo_character_def character_doc_def)
  have nf: "\<not> fresh_id (coll_character demo_store) ''c1''"
    by (simp add: fresh_id_def cc demo_character_def)
  have wf: "list_all wf_character
       [demo_character, character_doc demo_new_character 40 ''c2'',
        character_doc demo_new_character 50 ''c3'']"
    by (simp add: wf_character_doc)
       (simp add: wf_character_def demo_character_def dict_get_def dict_get_default_def)
  have c1: "create_character demo_lax (Some demo_store) demo_new_character 40 ''c2''
     = (Some ?s1,
        Inr \<lparr>co_id = ''c2'', co_name = ''Ben'', co_personality = ''bold'',
             co_appearance = Some ''tall'', co_location = None,
             co_creator_username = ''alice'', co_nsfw_allowed = False, co_created_at = 40\<rparr>)"
    by (simp add: create_character_fresh [OF f1] cc demo_new_character_def)
  have c2: "create_character demo_lax (Some ?s1) demo_new_character 50 ''c3''
     = (Some ?s2,
        Inr \<lparr>co_id = ''c3'', co_name = ''Ben'', co_personality = ''bold'',
             co_appearance = Some ''tall'', co_location = None,
             co_creator_username = ''alice'', co_nsfw_allowed = False, co_created_at = 50\<rparr>)"
    by (simp only: create_character_fresh [OF f3]) (simp add: demo_new_character_def)
  have c3: "create_character demo_lax (Some demo_store) demo_new_character 40 ''c1''
     = (Some demo_store, Inl DuplicateKeyError)"
    by (rule create_character_stored [OF nf])
  have ls: "list_characters demo_lax (Some ?s2)
     = Inr [\<lparr>co_id = ''c3'', co_name = ''Ben'', co_personality = ''bold'',
             co_appearance = Some ''tall'', co_location = None,
             co_creator_username = ''alice'', co_nsfw_allowed = False, co_created_at = 50\<rparr>,
            \<lparr>co_id = ''c2'', co_name = ''Ben'', co_personality = ''bold'',
             co_appearance = Some ''tall'', co_location = None,
             co_creator_username = ''alice'', co_nsfw_allowed = False, co_created_at = 40\<rparr>,
            \<lparr>co_id = ''c1'', co_name = ''Ada'', co_personality = ''calm'',
             co_appearance = None, co_location = Some ''Paris'',
             co_creator_username = ''alice'', co_nsfw_allowed = False, co_created_at = 10\<rparr>]"
    by (simp add: list_characters_def find_sort_def CharacterOut_of_def doc_to_str_id_def
        bind_e_def dict_index_def dict_get_def dict_get_default_def new_CharacterOut_def
        demo_character_def character_doc_def demo_new_character_def opt_str_val_def
        less_eq_prod_def)
  show ?thesis
    using c1 c2 c3 f1 f2 nf wf ls
      create_character_twice_and_list [where lax = demo_lax and s = demo_store
        and chr = demo_new_character and ?t1.0 = 40 and ?u1.0 = "''c2''" and ?t2.0 = 50
        and ?u2.0 = "''c3''" and ?s1.0 = ?s1 and ?s2.0 = ?s2 and t = 40
        and u = "''c1''" and s' = ?s2]
    by simp
qed

section \<open>Properties of the user handler\<close>

lemma user_doc_ok_iff:
  "user_doc_ok d \<longleftrightarrow>
     (\<exists>u. map_of d ''_id'' = Some (VStr u) \<and> map_of d ''username'' = Some (VStr u))"
proof (cases "map_of d ''_id''")
  case None
  then show ?thesis by (simp add: user_doc_ok_def)
next
  case (Some v)
  then show ?thesis by (cases v) (simp_all add: user_doc_ok_def)
qed

lemma users_ok_D:
  assumes "users_ok coll" "d \<in> set coll"
  shows "\<exists>u. map_of d ''_id'' = Some (VStr u) \<and> map_of d ''username'' = Some (VStr u)"
  using assms by (simp add: users_ok_def list_all_iff user_doc_ok_iff)

lemma users_ok_id_iff:
  assumes "users_ok coll" "d \<in> set coll"
  shows "map_of d ''_id'' = Some (VStr u) \<longleftrightarrow> map_of d ''username'' = Some (VStr u)"
  using users_ok_D [OF assms] by auto

lemma length_filter_distinct:
  "distinct (map f xs) \<Longrightarrow> x \<in> set xs \<Longrightarrow> length (filter (\<lambda>d. f d = f x) xs) = 1"
proof (induction xs)
  case Nil
  then show ?case by simp
next
  case (Cons a xs)
  show ?case
  proof (cases "f a = f x")
    case True
    with Cons.prems have "\<forall>d\<in>set xs. f d \<noteq> f x" by (auto simp: image_iff)
    then have "filter (\<lambda>d. f d = f x) xs = []" by (simp add: filter_empty_conv)
    with True show ?thesis by simp
  next
    case False
    with Cons show ?thesis by auto
  qed
qed

lemma update_one_by_id:
  "distinct (map (\<lambda>d. map_of d ''_id'') coll) \<Longrightarrow>
     update_one coll [(''_id'', v)] upd =
       map (\<lambda>d. if map_of d ''_id'' = Some v then set_fields upd d else d) coll"
proof (induction coll)
  case Nil
  then show ?case by simp
next
  case (Cons d ds)
  show ?case
  proof (cases "map_of d ''_id'' = Some v")
    case True
    with Cons.prems have "\<forall>e\<in>set ds. map_of e ''_id'' \<noteq> Some v" by (auto simp: image_iff)
    then have "map (\<lambda>d. if map_of d ''_id'' = Some v then set_fields upd d else d) ds = ds"
      by (simp add: map_idI)
    with True show ?thesis by simp
  next
    case False
    with Cons show ?thesis by simp
  qed
qed

lemma payload_eq:
  "AList.update ''updated_at'' (VTime now) (model_dump_UserProfile p) = user_payload p now"
  by (simp add: model_dump_UserProfile_def user_payload_def opt_int_val_def)

lemma map_of_set_fields_payload:
  "map_of (set_fields (user_payload p now) d) k =
     (if k = ''username'' then Some (VStr (up_username p))
      else if k = ''age'' then Some (opt_int_val (up_age p))
      else if k = ''trust_score'' then Some (VInt (up_trust_score p))
      else if k = ''updated_at'' then Some (VTime now)
      else map_of d k)"
  by (simp add: set_fields_def user_payload_def update_conv')

lemma new_UserProfile_valid:
  "valid_UserProfile p \<Longrightarrow>
     new_UserProfile (VStr (up_username p)) (opt_int_val (up_age p)) (VInt (up_trust_score p))
       = Inr (p :: UserProfile)"
  by (cases "up_age p") (simp_all add: new_UserProfile_def opt_int_val_def Let_def valid_UserProfile_def)

lemma upsert_user_insert:
  assumes v: "valid_UserProfile p"
      and ok: "users_ok (coll_userprofile s)"
      and none: "find_one (coll_userprofile s) [(''username'', VStr (up_username p))] = None"
  shows "\<exists>coll'. upsert_user (Some s) p t1 t2 = (Some (s\<lparr>coll_userprofile := coll'\<rparr>), Inr p)
        \<and> users_ok coll'
        \<and> length (filter (\<lambda>d. map_of d ''username'' = Some (VStr (up_username p))) coll') = 1
        \<and> (\<forall>d\<in>set coll'. map_of d ''username'' = Some (VStr (up_username p)) \<longrightarrow>
               map_of d ''age'' = Some (opt_int_val (up_age p))
               \<and> map_of d ''trust_score'' = Some (VInt (up_trust_score p)))"
proof -
  let ?u = "up_username p"
  let ?coll = "coll_userprofile s"
  let ?new = "[(''username'', VStr ?u), (''age'', opt_int_val (up_age p)),
               (''trust_score'', VInt (up_trust_score p)), (''updated_at'', VTime t1),
               (''created_at'', VTime t2), (''_id'', VStr ?u)]"
  have new: "AList.update ''_id'' (VStr ?u)
               (AList.update ''created_at'' (VTime t2) (user_payload p t1)) = ?new"
    by (simp add: user_payload_def)
  have no: "\<forall>d\<in>set ?coll. map_of d ''username'' \<noteq> Some (VStr ?u)"
    using none by (simp add: find_one_None_iff)
  have noid: "\<forall>d\<in>set ?coll. map_of d ''_id'' \<noteq> Some (VStr ?u)"
    using no users_ok_id_iff [OF ok] by blast
  have ins: "insert_one ?coll ?new = Inr (?coll @ [?new])"
    by (rule insert_one_fresh [of _ ?u]) (use noid in \<open>simp_all add: fresh_id_def list_ex_iff\<close>)
  have prof: "UserProfile_of (Some ?new) = Inr p"
    using new_UserProfile_valid [OF v] by (simp add: UserProfile_of_def dict_get_def)
  have res: "upsert_user (Some s) p t1 t2 = (Some (s\<lparr>coll_userprofile := ?coll @ [?new]\<rparr>), Inr p)"
    unfolding upsert_user_def
    using none by (simp add: Let_def payload_eq new ins prof)
  have "Some (VStr ?u) \<notin> set (map (\<lambda>d. map_of d ''_id'') ?coll)"
    using noid by auto
  then have ok': "users_ok (?coll @ [?new])"
    using ok by (simp add: users_ok_def user_doc_ok_def)
  have "filter (\<lambda>d. map_of d ''username'' = Some (VStr ?u)) ?coll = []"
    using no by (simp add: filter_empty_conv)
  then have len: "length (filter (\<lambda>d. map_of d ''username'' = Some (VStr ?u)) (?coll @ [?new])) = 1"
    by simp
  have fields: "\<forall>d\<in>set (?coll @ [?new]). map_of d ''username'' = Some (VStr ?u) \<longrightarrow>
               map_of d ''age'' = Some (opt_int_val (up_age p))
               \<and> map_of d ''trust_score'' = Some (VInt (up_trust_score p))"
    using no by auto
  from res ok' len fields show ?thesis by blast
qed

lemma upsert_user_update:
  assumes v: "valid_UserProfile p"
      and ok: "users_ok (coll_userprofile s)"
      and some: "find_one (coll_userprofile s) [(''username'', VStr (up_username p))] = Some ex"
  shows "\<exists>coll'. upsert_user (Some s) p t1 t2 = (Some (s\<lparr>coll_userprofile := coll'\<rparr>), Inr p)
        \<and> users_ok coll'
        \<and> length (filter (\<lambda>d. map_of d ''username'' = Some (VStr (up_username p))) coll') = 1
        \<and> (\<forall>d\<in>set coll'. map_of d ''username'' = Some (VStr (up_username p)) \<longrightarrow>
               map_of d ''age'' = Some (opt_int_val (up_age p))
               \<and> map_of d ''trust_score'' = Some (VInt (up_trust_score p)))"
proof -
  let ?u = "up_username p"
  let ?coll = "coll_userprofile s"
  let ?pay = "user_payload p t1"
  let ?g = "\<lambda>d. if map_of d ''_id'' = Some (VStr ?u) then set_fields ?pay d else d"
  let ?coll' = "map ?g ?coll"
  let ?P = "\<lambda>d. map_of d ''username'' = Some (VStr ?u)"
  have dist: "distinct (map (\<lambda>d. map_of d ''_id'') ?coll)"
    using ok by (simp add: users_ok_def)
  have ex: "ex \<in> set ?coll" "map_of ex ''username'' = Some (VStr ?u)"
    using find_one_Some_D [OF some] by simp_all
  then have exid: "map_of ex ''_id'' = Some (VStr ?u)"
    using users_ok_id_iff [OF ok] by blast
  have idx: "dict_index ex ''_id'' = Inr (VStr ?u)"
    using exid by (simp add: dict_index_def)
  have upd: "update_one ?coll [(''_id'', VStr ?u)] ?pay = ?coll'"
    by (rule update_one_by_id [OF dist])
  have gid: "map_of (?g d) ''_id'' = map_of d ''_id''" for d
    by (simp add: map_of_set_fields_payload)
  have gP: "?P (?g d) \<longleftrightarrow> map_of d ''_id'' = Some (VStr ?u)" if "d \<in> set ?coll" for d
    using users_ok_id_iff [OF ok that, of ?u] by (simp add: map_of_set_fields_payload)
  have "?g ex \<in> set ?coll'" using ex(1) by (simp only: set_map image_eqI)
  moreover have "map_of (?g ex) ''_id'' = Some (VStr ?u)"
    using exid by (simp add: map_of_set_fields_payload)
  ultimately have "find_one ?coll' [(''_id'', VStr ?u)] \<noteq> None"
    unfolding find_one_None_iff by blast
  then obtain d' where d': "find_one ?coll' [(''_id'', VStr ?u)] = Some d'" by blast
  from find_one_Some_D [OF d'] obtain d where
    d: "d \<in> set ?coll" "d' = ?g d" "map_of d' ''_id'' = Some (VStr ?u)"
    by auto
  then have "map_of d ''_id'' = Some (VStr ?u)" using gid [of d] by simp
  then have d'eq: "d' = set_fields ?pay d" using d(2) by simp
  have prof: "UserProfile_of (Some d') = Inr p"
    using new_UserProfile_valid [OF v]
    by (simp add: UserProfile_of_def dict_get_def d'eq map_of_set_fields_payload)
  have "ex \<noteq> []" using find_one_Some_D [OF some] by simp
  then have res: "upsert_user (Some s) p t1 t2 = (Some (s\<lparr>coll_userprofile := ?coll'\<rparr>), Inr p)"
    unfolding upsert_user_def
    using some by (simp add: Let_def payload_eq idx upd d' prof)
  have ids: "map (\<lambda>d. map_of d ''_id'') ?coll' = map (\<lambda>d. map_of d ''_id'') ?coll"
    using gid by (simp add: comp_def)
  have gok: "user_doc_ok (?g d)" if "d \<in> set ?coll" for d
    using users_ok_D [OF ok that] by (auto simp: user_doc_ok_iff map_of_set_fields_payload)
  have dist': "distinct (map (\<lambda>d. map_of d ''_id'') ?coll')"
    using dist by (simp only: ids)
  have "list_all user_doc_ok ?coll'"
    unfolding list_all_iff
  proof
    fix e assume "e \<in> set ?coll'"
    then obtain d0 where "d0 \<in> set ?coll" "e = ?g d0" by auto
    with gok [of d0] show "user_doc_ok e" by simp
  qed
  with dist' have ok': "users_ok ?coll'"
    by (simp only: users_ok_def simp_thms)
  have "filter ?P ?coll' = map ?g (filter (\<lambda>d. ?P (?g d)) ?coll)"
    by (simp add: filter_map comp_def)
  also have "filter (\<lambda>d. ?P (?g d)) ?coll = filter (\<lambda>d. map_of d ''_id'' = map_of ex ''_id'') ?coll"
    using gP exid by (intro filter_cong) auto
  finally have "length (filter ?P ?coll') =
      length (filter (\<lambda>d. map_of d ''_id'' = map_of ex ''_id'') ?coll)"
    by simp
  also have "\<dots> = 1" by (rule length_filter_distinct [OF dist ex(1)])
  finally have len: "length (filter ?P ?coll') = 1" .
  have fields: "\<forall>e\<in>set ?coll'. ?P e \<longrightarrow>
               map_of e ''age'' = Some (opt_int_val (up_age p))
               \<and> map_of e ''trust_score'' = Some (VInt (up_trust_score p))"
  proof (intro ballI impI)
    fix e assume e: "e \<in> set ?coll'" "?P e"
    then obtain d0 where d0: "d0 \<in> set ?coll" "e = ?g d0" by auto
    with e(2) gP [OF d0(1)] have "map_of d0 ''_id'' = Some (VStr ?u)" by simp
    with d0(2) show "map_of e ''age'' = Some (opt_int_val (up_age p))
               \<and> map_of e ''trust_score'' = Some (VInt (up_trust_score p))"
      by (simp add: map_of_set_fields_payload)
  qed
  from res ok' len fields show ?thesis by blast
qed

lemma upsert_user_ok:
  assumes v: "valid_UserProfile p"
      and ok: "users_ok (coll_userprofile s)"
  shows "\<exists>coll'. upsert_user (Some s) p t1 t2 = (Some (s\<lparr>coll_userprofile := coll'\<rparr>), Inr p)
        \<and> users_ok coll'
        \<and> length (filter (\<lambda>d. map_of d ''username'' = Some (VStr (up_username p))) coll') = 1
        \<and> (\<forall>d\<in>set coll'. map_of d ''username'' = Some (VStr (up_username p)) \<longrightarrow>
               map_of d ''age'' = Some (opt_int_val (up_age p))
               \<and> map_of d ''trust_score'' = Some (VInt (up_trust_score p)))"
proof (cases "find_one (coll_userprofile s) [(''username'', VStr (up_username p))]")
  case None
  from upsert_user_insert [OF v ok None] show ?thesis .
next
  case (Some ex)
  from upsert_user_update [OF v ok Some] show ?thesis .
qed

text \<open>\<^verbatim>\<open>upsert_user\<close> writes the user collection only.\<close>

lemma upsert_user_keeps_ok:
  assumes ok: "store_ok s"
      and r: "fst (upsert_user (Some s) p now1 now2) = Some s'"
  shows "store_ok s'"
proof -
  have "coll_character s' = coll_character s \<and> coll_message s' = coll_message s"
    using r
    by (auto simp: upsert_user_def Let_def split: option.splits sum.splits)
  with ok show ?thesis by (simp add: store_ok_def)
qed

text \<open>
  C4. For valid profiles, calling \<open>upsert_user\<close> twice with the same username leaves exactly
  one stored record for that username, whose age and trust score are those of the second
  call; each call returns the profile it was given, a record of username, age and trust
  score only. The user collection is one that \<open>upsert_user\<close> keeps (\<open>users_ok\<close>), and it
  stays so.
\<close>

theorem upsert_user_twice:
  assumes v1: "valid_UserProfile p1"
      and v2: "valid_UserProfile p2"
      and same: "up_username p2 = up_username p1"
      and ok: "users_ok (coll_userprofile s)"
  shows "\<exists>s1 s2.
           upsert_user (Some s) p1 a1 b1 = (Some s1, Inr p1)
         \<and> upsert_user (Some s1) p2 a2 b2 = (Some s2, Inr p2)
         \<and> length (filter (\<lambda>d. map_of d ''username'' = Some (VStr (up_username p1)))
                     (coll_userprofile s2)) = 1
         \<and> (\<forall>d\<in>set (coll_userprofile s2).
               map_of d ''username'' = Some (VStr (up_username p1)) \<longrightarrow>
                 map_of d ''age'' = Some (opt_int_val (up_age p2))
                 \<and> map_of d ''trust_score'' = Some (VInt (up_trust_score p2)))
         \<and> users_ok (coll_userprofile s2)"
proof -
  from upsert_user_ok [OF v1 ok, of a1 b1] obtain coll1 where
    r1: "upsert_user (Some s) p1 a1 b1 = (Some (s\<lparr>coll_userprofile := coll1\<rparr>), Inr p1)"
    and ok1: "users_ok coll1"
    by blast
  let ?s1 = "s\<lparr>coll_userprofile := coll1\<rparr>"
  have "users_ok (coll_userprofile ?s1)" using ok1 by simp
  from upsert_user_ok [OF v2 this, of a2 b2] obtain coll2 where
    r2: "upsert_user (Some ?s1) p2 a2 b2 = (Some (?s1\<lparr>coll_userprofile := coll2\<rparr>), Inr p2)"
    and ok2: "users_ok coll2"
    and len: "length (filter (\<lambda>d. map_of d ''username'' = Some (VStr (up_username p2))) coll2) = 1"
    and fields: "\<forall>d\<in>set coll2. map_of d ''username'' = Some (VStr (up_username p2)) \<longrightarrow>
               map_of d ''age'' = Some (opt_int_val (up_age p2))
               \<and> map_of d ''trust_score'' = Some (VInt (up_trust_score p2))"
    by blast
  let ?s2 = "?s1\<lparr>coll_userprofile := coll2\<rparr>"
  have c: "coll_userprofile ?s2 = coll2" by simp
  show ?thesis
    apply (rule exI [of _ ?s1], rule exI [of _ ?s2])
    unfolding c same [symmetric]
    using r1 r2 len fields ok2 by (intro conjI)
qed

theorem upsert_user_twice_witness:
  "valid_UserProfile demo_profile1 \<and> valid_UserProfile demo_profile2
   \<and> up_username demo_profile2 = up_username demo_profile1
   \<and> users_ok (coll_userprofile demo_store)
   \<and> (\<exists>s1 s2.
         upsert_user (Some demo_store) demo_profile1 2 3 = (Some s1, Inr demo_profile1)
       \<and> upsert_user (Some s1) demo_profile2 4 5 = (Some s2, Inr demo_profile2)
       \<and> map (\<lambda>d. (map_of d ''age'', map_of d ''trust_score''))
             (filter (\<lambda>d. map_of d ''username'' = Some (VStr ''bob'')) (coll_userprofile s2))
           = [(Some (VInt 41), Some (VInt 7))])"
proof -
  have v1: "valid_UserProfile demo_profile1"
    by (simp add: valid_UserProfile_def demo_profile1_def)
  have v2: "valid_UserProfile demo_profile2"
    by (simp add: valid_UserProfile_def demo_profile2_def)
  have same: "up_username demo_profile2 = up_username demo_profile1"
    by (simp add: demo_profile1_def demo_profile2_def)
  have ok: "users_ok (coll_userprofile demo_store)"
    by (simp add: users_ok_def user_doc_ok_def demo_store_def)
  have u: "up_username demo_profile1 = ''bob''" "opt_int_val (up_age demo_profile2) = VInt 41"
    "up_trust_score demo_profile2 = 7"
    by (simp_all add: demo_profile1_def demo_profile2_def opt_int_val_def)
  from upsert_user_twice [OF v1 v2 same ok, of 2 3 4 5]
  obtain s1 s2 where
    r: "upsert_user (Some demo_store) demo_profile1 2 3 = (Some s1, Inr demo_profile1)"
       "upsert_user (Some s1) demo_profile2 4 5 = (Some s2, Inr demo_profile2)"
    and len: "length (filter (\<lambda>d. map_of d ''username'' = Some (VStr ''bob''))
                   (coll_userprofile s2)) = 1"
    and fields: "\<forall>d\<in>set (coll_userprofile s2).
             map_of d ''username'' = Some (VStr ''bob'') \<longrightarrow>
               map_of d ''age'' = Some (VInt 41) \<and> map_of d ''trust_score'' = Some (VInt 7)"
    unfolding u by blast
  from len obtain d where
    d: "filter (\<lambda>d. map_of d ''username'' = Some (VStr ''bob'')) (coll_userprofile s2) = [d]"
    by (auto simp: length_Suc_conv)
  then have "d \<in> set (filter (\<lambda>d. map_of d ''username'' = Some (VStr ''bob''))
                      (coll_userprofile s2))"
    by simp
  then have "d \<in> set (coll_userprofile s2) \<and> map_of d ''username'' = Some (VStr ''bob'')"
    by simp
  with fields have "map_of d ''age'' = Some (VInt 41)" "map_of d ''trust_score'' = Some (VInt 7)"
    by blast+
  with d have m: "map (\<lambda>d. (map_of d ''age'', map_of d ''trust_score''))
             (filter (\<lambda>d. map_of d ''username'' = Some (VStr ''bob'')) (coll_userprofile s2))
           = [(Some (VInt 41), Some (VInt 7))]"
    by simp
  show ?thesis
    apply (intro conjI)
        apply (rule v1, rule v2, rule same, rule ok)
    apply (rule exI [of _ s1], rule exI [of _ s2])
    apply (intro conjI)
      apply (rule r, rule r, rule m)
    done
qed

end
